theory Spec2Isabelle
  imports Main
begin

section \<open>JavaScript strings\<close>

text \<open>
  A JavaScript string is a sequence of UTF-16 code units, and \<open>length\<close>, \<open>includes\<close>,
  \<open>substring\<close> and \<open>===\<close> all work on code units. A code unit is modelled by its numeric
  value, so that the functions below are defined on every string the server can receive,
  not only on ASCII ones. \<open>js\<close> embeds a literal of the source.
\<close>

type_synonym jsstring = "nat list"

definition js :: "string \<Rightarrow> jsstring" where
  "js s = map of_char s"

fun startsWith :: "jsstring \<Rightarrow> jsstring \<Rightarrow> bool" where
  "startsWith s [] = True"
| "startsWith [] (p # ps) = False"
| "startsWith (c # cs) (p # ps) = (c = p \<and> startsWith cs ps)"

text \<open>
  \<open>s.includes(p)\<close>: \<open>p\<close> occurs in \<open>s\<close> as a contiguous run of code units. The name alone
  is a keyword of Isabelle, hence the suffix.
\<close>

fun includes_str :: "jsstring \<Rightarrow> jsstring \<Rightarrow> bool" where
  "includes_str [] p = (p = [])"
| "includes_str (c # cs) p = (startsWith (c # cs) p \<or> includes_str cs p)"

text \<open>
  \<open>s.trim()\<close> removes the white space and line terminators of ECMAScript from both ends.
\<close>

definition isWhiteSpace :: "nat \<Rightarrow> bool" where
  "isWhiteSpace c =
     (c \<in> {9, 10, 11, 12, 13, 32, 160, 5760, 8232, 8233, 8239, 8287, 12288, 65279}
      \<or> (8192 \<le> c \<and> c \<le> 8202))"

definition trim :: "jsstring \<Rightarrow> jsstring" where
  "trim s = rev (dropWhile isWhiteSpace (rev (dropWhile isWhiteSpace s)))"

text \<open>
  \<open>toUpperCase\<close> on the ASCII letters; other code units are left as they are. The code
  applies it only to the seven language names of \<open>detectLanguage\<close>, which are ASCII.
\<close>

definition toUpperCase :: "jsstring \<Rightarrow> jsstring" where
  "toUpperCase s = map (\<lambda>c. if 97 \<le> c \<and> c \<le> 122 then c - 32 else c) s"

text \<open>
  \<open>toLowerCase\<close> is applied to what a client sends, and JavaScript lowers more than the
  ASCII letters (the Kelvin sign becomes \<open>k\<close>, a capital I with a dot becomes two code
  units). The functions that call it therefore take the engine's \<open>toLowerCase\<close> as their
  first argument, and what is proved of them holds for every such function.
  \<open>asciiLowerCase\<close> is \<open>toLowerCase\<close> on the strings made of ASCII code units, which is all
  that is needed to run the account functions on an ASCII identifier.
\<close>

definition asciiLowerCase :: "jsstring \<Rightarrow> jsstring" where
  "asciiLowerCase s = map (\<lambda>c. if 65 \<le> c \<and> c \<le> 90 then c + 32 else c) s"

text \<open>An array read \<open>xs[i]\<close>: \<open>undefined\<close> (here \<open>None\<close>) outside the array.\<close>

definition at :: "'a list \<Rightarrow> nat \<Rightarrow> 'a option" where
  "at xs i = (if i < length xs then Some (xs ! i) else None)"

section \<open>Errors\<close>

text \<open>
  Every \<open>next(new AppError(...))\<close>, every rejected promise and every thrown exception of
  the source is a value of this type. The constructors name the \<open>AppError\<close>s of the
  middleware and the routes (\<open>AccountLocked\<close> carries the minutes left), the 429 answer of
  a rate limiter (\<open>TooManyRequests\<close>), the two exceptions of
  \<open>jwt.verify\<close>, and \<open>Thrown\<close> for any other exception (a failed provider call, a failed
  write to the store) with its message.
\<close>

datatype error =
    NotLoggedIn
  | JsonWebTokenError
  | TokenExpiredError
  | UserNoLongerExists
  | AccountDeactivated
  | PasswordChangedAfterToken
  | AccountLocked int
  | IncorrectCredentials
  | CurrentPasswordIncorrect
  | TooManyRequests
  | Thrown jsstring

section \<open>The AI service\<close>

text \<open>
  \<open>class AIService\<close>: the health flag and the time of the last probe are the fields
  \<open>isHealthy\<close> and \<open>lastHealthCheck\<close> (\<open>null\<close> until the first probe). Times are
  milliseconds since the epoch, as \<open>Date.now()\<close> gives them.

  The provider is outside the program. What it answers to a call is an argument of the
  model: \<open>Inr text\<close> when \<open>generateContent\<close> and \<open>response.text()\<close> return, \<open>Inl e\<close> when
  anything inside the \<open>try\<close> block throws. The prompt is only ever handed to the provider,
  so the prompt builders are not modelled.
\<close>

record ai_state =
  isHealthy :: bool
  lastHealthCheck :: "int option"

record health_report =
  healthy :: bool
  failure :: "jsstring option"
  lastCheck :: "int option"

type_synonym provider_reply = "error + jsstring"

fun message :: "error \<Rightarrow> jsstring" where
  "message (Thrown m) = m"
| "message e = []"

text \<open>\<open>healthCheck\<close>; \<open>now\<close> is the \<open>new Date()\<close> taken once the provider has answered.\<close>

definition healthCheck :: "int \<Rightarrow> provider_reply \<Rightarrow> ai_state \<Rightarrow> health_report \<times> ai_state" where
  "healthCheck now reply st =
     (case reply of
        Inr text \<Rightarrow>
          (let st' = st\<lparr>isHealthy := includes_str (trim text) (js ''OK''),
                        lastHealthCheck := Some now\<rparr>
           in (\<lparr>healthy = isHealthy st', failure = None, lastCheck = lastHealthCheck st'\<rparr>, st'))
      | Inl e \<Rightarrow>
          (let st' = st\<lparr>isHealthy := False, lastHealthCheck := Some now\<rparr>
           in (\<lparr>healthy = False, failure = Some (message e), lastCheck = lastHealthCheck st'\<rparr>,
               st')))"

text \<open>
  The guard in front of both live calls:
  \<open>!this.isHealthy && this.lastHealthCheck && Date.now() - this.lastHealthCheck > 60000\<close>.
\<close>

definition probeDue :: "int \<Rightarrow> ai_state \<Rightarrow> bool" where
  "probeDue now st =
     (\<not> isHealthy st \<and>
      (case lastHealthCheck st of None \<Rightarrow> False | Some t \<Rightarrow> now - t > 60000))"

definition fallbackHints :: "bool \<Rightarrow> jsstring list" where
  "fallbackHints hasCode =
     [js ''Start by understanding what the problem is asking. What are the inputs and expected outputs?'',
      js ''Think about the constraints. What do they tell you about the expected time complexity?'',
      js ''Consider what data structures would be most helpful for efficient lookups or storage.'',
      js ''Break the problem into smaller steps. What would your algorithm do in each step?'',
      js ''Think about edge cases. What happens with minimum or maximum input values?'',
      (if hasCode
       then js ''Review your current approach step by step. Are you handling all the requirements?''
       else js ''Time to start coding! Implement your approach and test with the examples.'')]"

definition getFallbackHint :: "nat \<Rightarrow> bool \<Rightarrow> jsstring \<Rightarrow> jsstring \<Rightarrow> jsstring option" where
  "getFallbackHint hintNumber hasCode platform difficulty =
     (let index = min hintNumber (length (fallbackHints hasCode) - 1)
      in at (fallbackHints hasCode) index)"

definition detectLanguage :: "jsstring \<Rightarrow> jsstring" where
  "detectLanguage code =
     (if includes_str code (js ''def '') \<or> includes_str code (js ''import '') \<or> includes_str code (js ''print('')
      then js ''python''
      else if includes_str code (js ''function'') \<or> includes_str code (js ''const '') \<or> includes_str code (js ''let '')
      then js ''javascript''
      else if includes_str code (js ''#include'') \<or> includes_str code (js ''int main'') \<or> includes_str code (js ''cout'')
      then js ''cpp''
      else if includes_str code (js ''public class'') \<or> includes_str code (js ''System.out'')
      then js ''java''
      else if includes_str code (js ''package main'') \<or> includes_str code (js ''func '')
      then js ''go''
      else if includes_str code (js ''use '') \<or> includes_str code (js ''fn '')
      then js ''rust''
      else js ''unknown'')"

text \<open>The sentence the fallback analysis adds for loops; \<open>0xB2\<close> is the superscript two.\<close>

definition nestedLoopWarning :: jsstring where
  "nestedLoopWarning =
     js ''**Potential Issue:** I see nested loops which might lead to O(n'' @ js [CHR 0xB2]
     @ js '') time complexity. Consider if there's a more efficient approach.''
     @ js [CHR 0x0A, CHR 0x0A]"

definition placeholderNote :: jsstring where
  "placeholderNote =
     js ''**Implementation Status:** You have placeholder return values. Make sure to implement the complete logic.''
     @ js [CHR 0x0A, CHR 0x0A]"

definition hashMapNote :: jsstring where
  "hashMapNote =
     js ''**Good Choice:** Using hash maps/dictionaries for efficient lookups is often the right approach!''
     @ js [CHR 0x0A, CHR 0x0A]"

definition nextSteps :: "jsstring \<Rightarrow> jsstring" where
  "nextSteps platform =
     js ''**Next Steps:** Test your code with the provided examples and consider edge cases. ''
     @ (if platform = js ''codeforces'' then js ''Remember to check time limits!''
        else js ''Focus on correctness first, then optimization.'')"

definition getFallbackCodeAnalysis :: "jsstring \<Rightarrow> jsstring \<Rightarrow> jsstring" where
  "getFallbackCodeAnalysis userCode platform =
     (let language = detectLanguage userCode;
          analysis0 = js ''**Code Analysis ('' @ toUpperCase language @ js ''):**''
                      @ js [CHR 0x0A, CHR 0x0A];
          analysis1 = (if includes_str userCode (js ''for'') \<and> includes_str userCode (js ''for'')
                       then analysis0 @ nestedLoopWarning else analysis0);
          analysis2 = (if includes_str userCode (js ''return []'') \<or> includes_str userCode (js ''return 0'')
                          \<or> includes_str userCode (js ''return None'')
                       then analysis1 @ placeholderNote else analysis1);
          analysis3 = (if includes_str userCode (js ''dict'') \<or> includes_str userCode (js ''{}'')
                          \<or> includes_str userCode (js ''map'') \<or> includes_str userCode (js ''unordered_map'')
                       then analysis2 @ hashMapNote else analysis2)
      in analysis3 @ nextSteps platform)"

record hint_options =
  problemTitle :: jsstring
  problemStatement :: jsstring
  platform :: jsstring
  difficulty :: jsstring
  previousHints :: "jsstring list"
  userCode :: jsstring
  userLevel :: jsstring

text \<open>
  \<open>generateHint\<close>. \<open>now\<close> is the \<open>Date.now()\<close> of the guard, \<open>tprobe\<close> and \<open>probeReply\<close> are
  the time and the provider's answer of the probe, should it run, and \<open>liveReply\<close> is the
  outcome of the \<open>try\<close> block. The result is what the promise resolves to (\<open>Inr\<close>, a string
  or \<open>undefined\<close>) or is rejected with (\<open>Inl\<close>), and the service's state afterwards.
\<close>

definition generateHint ::
  "int \<Rightarrow> int \<Rightarrow> provider_reply \<Rightarrow> provider_reply \<Rightarrow> hint_options \<Rightarrow> ai_state
   \<Rightarrow> (error + jsstring option) \<times> ai_state" where
  "generateHint now tprobe probeReply liveReply options st =
     (let st1 = (if probeDue now st then snd (healthCheck tprobe probeReply st) else st)
      in (case liveReply of
            Inr text \<Rightarrow> (Inr (Some (trim text)), st1)
          | Inl e \<Rightarrow>
              (Inr (getFallbackHint (length (previousHints options))
                      (length (userCode options) > 0) (platform options) (difficulty options)),
               st1)))"

definition analyzeCode ::
  "int \<Rightarrow> int \<Rightarrow> provider_reply \<Rightarrow> provider_reply \<Rightarrow> hint_options \<Rightarrow> ai_state
   \<Rightarrow> (error + jsstring option) \<times> ai_state" where
  "analyzeCode now tprobe probeReply liveReply options st =
     (let st1 = (if probeDue now st then snd (healthCheck tprobe probeReply st) else st)
      in (case liveReply of
            Inr text \<Rightarrow> (Inr (Some (trim text)), st1)
          | Inl e \<Rightarrow>
              (Inr (Some (getFallbackCodeAnalysis (userCode options) (platform options))), st1)))"

section \<open>Accounts\<close>

text \<open>
  \<open>models/User.js\<close>. Of the schema the model keeps the fields the routes and the
  middleware read or write. The \<open>_id\<close> is \<open>uid\<close>; the account's \<open>isActive\<close> is
  \<open>accountActive\<close> (sessions have a field of the same name). A field removed by \<open>$unset\<close>
  reads as its schema default: \<open>0\<close> for \<open>loginAttempts\<close>, absent for \<open>lockUntil\<close>.

  \<open>bcrypt\<close> is a library: \<open>Bcrypt p\<close> stands for a hash of the password \<open>p\<close>, and
  \<open>bcrypt.compare\<close> accepts exactly the password that was hashed.
\<close>

datatype hashed = Bcrypt jsstring

record security =
  loginAttempts :: int
  lockUntil :: "int option"
  passwordChangedAt :: "int option"

record stats =
  statsHintsRequested :: int
  codeAnalyzed :: int
  totalSessions :: int
  lastActive :: "int option"

record user =
  uid :: nat
  email :: jsstring
  username :: jsstring
  password :: hashed
  security :: security
  stats :: stats
  hintStyle :: jsstring
  accountActive :: bool

record config =
  jwtSecret :: jsstring
  jwtExpiresIn :: int
  maxLoginAttempts :: int
  lockoutTime :: int
  maxRequests :: nat

text \<open>
  The collections of the store, in insertion order. \<open>eventsDown\<close> lists the event types
  whose \<open>Analytics.create\<close> the store rejects, and \<open>sessionsDown\<close> says that it rejects
  the writes of session documents: the unavailable store is part of the state a request
  meets.
\<close>

datatype session_status = Active | Completed | Abandoned | Errored

record problem =
  title :: jsstring
  problemPlatform :: jsstring
  url :: "jsstring option"
  problemDifficulty :: "jsstring option"
  statement :: jsstring

record hint =
  content :: "jsstring option"
  timestamp :: int
  hintUserCode :: jsstring
  codeLength :: nat
  responseTime :: int

record code_analysis =
  code :: jsstring
  analysis :: "jsstring option"
  analysisTimestamp :: int
  codeLanguage :: jsstring
  issues :: "jsstring list"
  suggestions :: "jsstring list"

record metrics =
  startTime :: int
  endTime :: "int option"
  duration :: "int option"
  hintsRequested :: nat
  analysesRequested :: nat
  codeSubmissions :: nat
  completed :: bool

record feedback =
  rating :: "int option"
  comment :: "jsstring option"
  helpful :: "bool option"
  submittedAt :: int

record session =
  sid :: nat
  userId :: "nat option"
  sessionId :: jsstring
  problem :: problem
  hints :: "hint list"
  codeAnalyses :: "code_analysis list"
  metrics :: metrics
  sessionFeedback :: "feedback option"
  extensionVersion :: jsstring
  status :: session_status
  isActive :: bool
  createdAt :: int

record event =
  eventType :: jsstring
  eventUserId :: "nat option"
  eventSessionId :: "nat option"
  eventPlatform :: "jsstring option"
  eventProblemTitle :: "jsstring option"
  eventHintNumber :: "nat option"
  eventCodeLength :: "nat option"
  eventResponseTime :: "int option"
  eventErrorMessage :: "jsstring option"

record db =
  users :: "user list"
  sessions :: "session list"
  events :: "event list"
  eventsDown :: "jsstring list"
  sessionsDown :: bool

definition findById :: "nat \<Rightarrow> db \<Rightarrow> user option" where
  "findById i d = find (\<lambda>u. uid u = i) (users d)"

text \<open>\<open>updateOne\<close> and \<open>save\<close> on a loaded account: the stored document with its \<open>_id\<close>.\<close>

definition updateUser :: "nat \<Rightarrow> (user \<Rightarrow> user) \<Rightarrow> db \<Rightarrow> db" where
  "updateUser i f d = d\<lparr>users := map (\<lambda>u. if uid u = i then f u else u) (users d)\<rparr>"

definition findByEmailOrUsername ::
  "(jsstring \<Rightarrow> jsstring) \<Rightarrow> jsstring \<Rightarrow> db \<Rightarrow> user option" where
  "findByEmailOrUsername toLowerCase identifier d =
     find (\<lambda>u. email u = toLowerCase identifier \<or> username u = identifier) (users d)"

text \<open>The virtual \<open>security.isLocked\<close>.\<close>

definition isLocked :: "int \<Rightarrow> user \<Rightarrow> bool" where
  "isLocked now u = (case lockUntil (security u) of None \<Rightarrow> False | Some l \<Rightarrow> l > now)"

definition comparePassword :: "jsstring \<Rightarrow> user \<Rightarrow> bool" where
  "comparePassword candidatePassword u = (password u = Bcrypt candidatePassword)"

text \<open>
  \<open>incrementLoginAttempts\<close>: the decision reads the loaded document \<open>u\<close>, the update is
  applied to the stored one. The three \<open>Date.now()\<close> of the method are one reading.
\<close>

definition incrementLoginAttempts :: "config \<Rightarrow> int \<Rightarrow> user \<Rightarrow> db \<Rightarrow> db" where
  "incrementLoginAttempts cfg now u d =
     (if (case lockUntil (security u) of None \<Rightarrow> False | Some l \<Rightarrow> l < now)
      then updateUser (uid u)
             (\<lambda>s. s\<lparr>security := (security s)\<lparr>lockUntil := None, loginAttempts := 1\<rparr>\<rparr>) d
      else if loginAttempts (security u) + 1 \<ge> maxLoginAttempts cfg \<and> \<not> isLocked now u
      then updateUser (uid u)
             (\<lambda>s. s\<lparr>security := (security s)\<lparr>loginAttempts := loginAttempts (security s) + 1,
                                               lockUntil := Some (now + lockoutTime cfg)\<rparr>\<rparr>) d
      else updateUser (uid u)
             (\<lambda>s. s\<lparr>security := (security s)\<lparr>loginAttempts := loginAttempts (security s) + 1\<rparr>\<rparr>) d)"

definition resetLoginAttempts :: "user \<Rightarrow> db \<Rightarrow> db" where
  "resetLoginAttempts u d =
     updateUser (uid u) (\<lambda>s. s\<lparr>security := (security s)\<lparr>loginAttempts := 0, lockUntil := None\<rparr>\<rparr>) d"

datatype stat_operation = OpHint | OpAnalyze | OpSession

definition updateStats :: "int \<Rightarrow> stat_operation \<Rightarrow> user \<Rightarrow> db \<Rightarrow> db" where
  "updateStats now operation u d =
     updateUser (uid u)
       (\<lambda>s. case operation of
          OpHint \<Rightarrow> s\<lparr>stats := (stats s)\<lparr>lastActive := Some now,
                          statsHintsRequested := statsHintsRequested (stats u) + 1\<rparr>\<rparr>
        | OpAnalyze \<Rightarrow> s\<lparr>stats := (stats s)\<lparr>lastActive := Some now,
                          codeAnalyzed := codeAnalyzed (stats u) + 1\<rparr>\<rparr>
        | OpSession \<Rightarrow> s\<lparr>stats := (stats s)\<lparr>lastActive := Some now,
                          totalSessions := totalSessions (stats u) + 1\<rparr>\<rparr>) d"

text \<open>
  The \<open>pre('save')\<close> hook, for a save that modified the password: the password is hashed
  and \<open>passwordChangedAt\<close> is the time of the save.
\<close>

definition savePassword :: "int \<Rightarrow> jsstring \<Rightarrow> user \<Rightarrow> db \<Rightarrow> db" where
  "savePassword now newPassword u d =
     updateUser (uid u)
       (\<lambda>s. s\<lparr>password := Bcrypt newPassword,
              security := (security s)\<lparr>passwordChangedAt := Some now\<rparr>\<rparr>) d"

section \<open>Tokens and the authentication middleware\<close>

text \<open>
  \<open>jsonwebtoken\<close> is a library. A token is its payload and the secret it was signed with;
  \<open>jwt.sign\<close> stamps \<open>iat\<close> with the whole seconds of the clock and \<open>exp\<close> with \<open>iat\<close> plus
  the lifetime, and \<open>jwt.verify\<close> refuses another secret's signature, then an \<open>exp\<close> that the
  clock's whole seconds have reached.
\<close>

record token =
  tokenId :: nat
  iat :: int
  exp :: int
  signedWith :: jsstring

definition signToken :: "config \<Rightarrow> int \<Rightarrow> nat \<Rightarrow> token" where
  "signToken cfg now i =
     \<lparr>tokenId = i, iat = now div 1000, exp = now div 1000 + jwtExpiresIn cfg,
      signedWith = jwtSecret cfg\<rparr>"

definition jwtVerify :: "config \<Rightarrow> int \<Rightarrow> token \<Rightarrow> error + token" where
  "jwtVerify cfg now t =
     (if signedWith t \<noteq> jwtSecret cfg then Inl JsonWebTokenError
      else if now div 1000 \<ge> exp t then Inl TokenExpiredError
      else Inr t)"

text \<open>\<open>parseInt(x / 1000, 10)\<close> on an integer \<open>x\<close> of milliseconds: the quotient, towards zero.\<close>

definition parseIntSeconds :: "int \<Rightarrow> int" where
  "parseIntSeconds ms = (if ms \<ge> 0 then ms div 1000 else - ((- ms) div 1000))"

text \<open>
  \<open>verifyToken\<close>. \<open>bearer\<close> is the token after \<open>Bearer\<close> in the authorization header, if
  there is one. The result is the error handed to \<open>next\<close>, or \<open>req.user\<close>.
\<close>

definition verifyToken :: "config \<Rightarrow> int \<Rightarrow> token option \<Rightarrow> db \<Rightarrow> (error + user) \<times> db" where
  "verifyToken cfg now bearer d =
     (case bearer of
        None \<Rightarrow> (Inl NotLoggedIn, d)
      | Some t \<Rightarrow>
          (case jwtVerify cfg now t of
             Inl e \<Rightarrow> (Inl e, d)
           | Inr decoded \<Rightarrow>
               (case findById (tokenId decoded) d of
                  None \<Rightarrow> (Inl UserNoLongerExists, d)
                | Some currentUser \<Rightarrow>
                    if \<not> accountActive currentUser then (Inl AccountDeactivated, d)
                    else if (case passwordChangedAt (security currentUser) of
                               None \<Rightarrow> False
                             | Some changed \<Rightarrow> iat decoded < parseIntSeconds changed)
                    then (Inl PasswordChangedAfterToken, d)
                    else (let u' = currentUser\<lparr>stats := (stats currentUser)\<lparr>lastActive := Some now\<rparr>\<rparr>
                          in (Inr u',
                              updateUser (uid u')
                                (\<lambda>s. s\<lparr>stats := (stats s)\<lparr>lastActive := Some now\<rparr>\<rparr>) d)))))"

record login_body =
  bodyEmail :: "jsstring option"
  bodyUsername :: "jsstring option"
  bodyIdentifier :: "jsstring option"
  bodyPassword :: "jsstring option"

text \<open>
  A body field as a condition: \<open>undefined\<close> and the empty string are falsy. \<open>a || b\<close> is
  \<open>a\<close> when \<open>a\<close> is truthy and \<open>b\<close> otherwise.
\<close>

definition truthy :: "jsstring option \<Rightarrow> bool" where
  "truthy v = (case v of None \<Rightarrow> False | Some s \<Rightarrow> s \<noteq> [])"

definition orElse :: "jsstring option \<Rightarrow> jsstring option \<Rightarrow> jsstring option" where
  "orElse a b = (if truthy a then a else b)"

text \<open>\<open>Math.ceil(ms / 60000)\<close> on an integer of milliseconds.\<close>

definition ceilMinutes :: "int \<Rightarrow> int" where
  "ceilMinutes ms = - ((- ms) div 60000)"

text \<open>
  \<open>checkAccountLock\<close>: \<open>None\<close> is \<open>next()\<close>, \<open>Some e\<close> is \<open>next(e)\<close>. It reads the fields
  \<open>email\<close> and \<open>username\<close> of the body. Past the guard one of the two is a non-empty
  string, and a locked account has a \<open>lockUntil\<close>, so the two \<open>None\<close> cases that the
  model writes out for them are never taken.
\<close>

definition checkAccountLock ::
  "(jsstring \<Rightarrow> jsstring) \<Rightarrow> int \<Rightarrow> login_body \<Rightarrow> db \<Rightarrow> error option" where
  "checkAccountLock toLowerCase now body d =
     (if \<not> truthy (bodyEmail body) \<and> \<not> truthy (bodyUsername body) then None
      else (case orElse (bodyEmail body) (bodyUsername body) of
              None \<Rightarrow> None
            | Some identifier \<Rightarrow>
                (case findByEmailOrUsername toLowerCase identifier d of
                   None \<Rightarrow> None
                 | Some u \<Rightarrow>
                     if isLocked now u
                     then (case lockUntil (security u) of
                             None \<Rightarrow> None
                           | Some l \<Rightarrow> Some (AccountLocked (ceilMinutes (l - now))))
                     else None)))"

section \<open>The authentication routes\<close>

record login_response =
  responseToken :: token
  responseUserId :: nat
  responseUsername :: jsstring
  responseEmail :: jsstring

definition createSendToken :: "config \<Rightarrow> int \<Rightarrow> user \<Rightarrow> login_response" where
  "createSendToken cfg now u =
     \<lparr>responseToken = signToken cfg now (uid u), responseUserId = uid u,
      responseUsername = username u, responseEmail = email u\<rparr>"

text \<open>
  The handler of \<open>POST /api/auth/login\<close>. The validation chains in front of it only
  record their findings, which the handler never reads. A missing \<open>identifier\<close> makes
  \<open>identifier.toLowerCase()\<close> throw, a missing \<open>password\<close> makes \<open>bcrypt.compare\<close> reject.
\<close>

definition loginHandler ::
  "(jsstring \<Rightarrow> jsstring) \<Rightarrow> config \<Rightarrow> int \<Rightarrow> login_body \<Rightarrow> db
   \<Rightarrow> (error + login_response) \<times> db" where
  "loginHandler toLowerCase cfg now body d =
     (case bodyIdentifier body of
        None \<Rightarrow> (Inl (Thrown (js ''Cannot read properties of undefined'')), d)
      | Some identifier \<Rightarrow>
          (case findByEmailOrUsername toLowerCase identifier d of
             None \<Rightarrow> (Inl IncorrectCredentials, d)
           | Some u \<Rightarrow>
               (case bodyPassword body of
                  None \<Rightarrow> (Inl (Thrown (js ''Illegal arguments'')), d)
                | Some pw \<Rightarrow>
                    if \<not> comparePassword pw u
                    then (Inl IncorrectCredentials, incrementLoginAttempts cfg now u d)
                    else if \<not> accountActive u then (Inl AccountDeactivated, d)
                    else (let d1 = (if loginAttempts (security u) > 0
                                    then resetLoginAttempts u d else d);
                              d2 = updateStats now OpSession u d1
                          in (Inr (createSendToken cfg now u), d2)))))"

text \<open>The route: \<open>[checkAccountLock, ...loginValidation]\<close>, then the handler.\<close>

definition loginRoute ::
  "(jsstring \<Rightarrow> jsstring) \<Rightarrow> config \<Rightarrow> int \<Rightarrow> login_body \<Rightarrow> db
   \<Rightarrow> (error + login_response) \<times> db" where
  "loginRoute toLowerCase cfg now body d =
     (case checkAccountLock toLowerCase now body d of
        Some e \<Rightarrow> (Inl e, d)
      | None \<Rightarrow> loginHandler toLowerCase cfg now body d)"

text \<open>A run of requests that reach the login route, with one body, at the given times.\<close>

fun loginRoutes ::
  "(jsstring \<Rightarrow> jsstring) \<Rightarrow> config \<Rightarrow> int list \<Rightarrow> login_body \<Rightarrow> db \<Rightarrow> db" where
  "loginRoutes toLowerCase cfg [] body d = d"
| "loginRoutes toLowerCase cfg (t # ts) body d =
     loginRoutes toLowerCase cfg ts body (snd (loginRoute toLowerCase cfg t body d))"

text \<open>
  \<open>PUT /api/auth/password\<close>, behind \<open>verifyToken\<close>: the handler loads the account of
  \<open>req.user\<close> again, checks the current password and saves the new one. The save validates
  the new password against the schema (at least eight code units) before the hook hashes
  it; the route's own validation chain only records its findings.
\<close>

definition passwordRoute ::
  "config \<Rightarrow> int \<Rightarrow> token option \<Rightarrow> jsstring \<Rightarrow> jsstring \<Rightarrow> db \<Rightarrow> (error + unit) \<times> db" where
  "passwordRoute cfg now bearer currentPassword newPassword d =
     (case verifyToken cfg now bearer d of
        (Inl e, d1) \<Rightarrow> (Inl e, d1)
      | (Inr reqUser, d1) \<Rightarrow>
          (case findById (uid reqUser) d1 of
             None \<Rightarrow> (Inl (Thrown (js ''Cannot read properties of null'')), d1)
           | Some u \<Rightarrow>
               if \<not> comparePassword currentPassword u then (Inl CurrentPasswordIncorrect, d1)
               else if length newPassword < 8
               then (Inl (Thrown (js ''User validation failed'')), d1)
               else (Inr (), savePassword now newPassword u d1)))"

section \<open>The rate limiters in front of the authentication routes\<close>

text \<open>
  \<open>express-rate-limit\<close> is a library. A limiter counts the requests of each address in a
  window of \<open>windowMs\<close> that starts with the first request it sees from the address, and
  answers 429 to every request beyond \<open>max\<close> in the window; a request it refuses is counted
  too, and a request after the end of the window starts a new one. The state of a limiter
  gives, for an address, the number of requests counted and the end of the window.
  \<open>rateLimit\<close> returns whether the request passes.
\<close>

type_synonym hit_counts = "jsstring \<Rightarrow> (nat \<times> int) option"

definition rateLimit :: "nat \<Rightarrow> int \<Rightarrow> int \<Rightarrow> jsstring \<Rightarrow> hit_counts \<Rightarrow> bool \<times> hit_counts" where
  "rateLimit maxHits windowMs now ip l =
     (let entry = (case l ip of
                     None \<Rightarrow> (1, now + windowMs)
                   | Some (n, resetTime) \<Rightarrow>
                       if now < resetTime then (Suc n, resetTime) else (1, now + windowMs))
      in (fst entry \<le> maxHits, l(ip \<mapsto> entry)))"

text \<open>
  The application puts its \<open>limiter\<close> in front of every route (\<open>maxRequests\<close> in fifteen
  minutes, 100 unless configured), and the router of \<open>/api/auth\<close> puts \<open>authRateLimit\<close> in
  front of its routes (five in fifteen minutes). Each keeps its own counts. \<open>None\<close> is
  \<open>next()\<close>, \<open>Some TooManyRequests\<close> the 429 answer.
\<close>

record limits =
  generalHits :: hit_counts
  authHits :: hit_counts

definition appLimiter :: "config \<Rightarrow> int \<Rightarrow> jsstring \<Rightarrow> limits \<Rightarrow> error option \<times> limits" where
  "appLimiter cfg now ip ls =
     (case rateLimit (maxRequests cfg) (15 * 60 * 1000) now ip (generalHits ls) of
        (ok, g) \<Rightarrow> (if ok then None else Some TooManyRequests, ls\<lparr>generalHits := g\<rparr>))"

definition authRateLimit :: "int \<Rightarrow> jsstring \<Rightarrow> limits \<Rightarrow> error option \<times> limits" where
  "authRateLimit now ip ls =
     (case rateLimit 5 (15 * 60 * 1000) now ip (authHits ls) of
        (ok, a) \<Rightarrow> (if ok then None else Some TooManyRequests, ls\<lparr>authHits := a\<rparr>))"

text \<open>The two in the order a request to \<open>/api/auth\<close> meets them.\<close>

definition authLimiters :: "config \<Rightarrow> int \<Rightarrow> jsstring \<Rightarrow> limits \<Rightarrow> error option \<times> limits" where
  "authLimiters cfg now ip ls =
     (case appLimiter cfg now ip ls of
        (Some e, ls1) \<Rightarrow> (Some e, ls1)
      | (None, ls1) \<Rightarrow> authRateLimit now ip ls1)"

text \<open>
  The server as the authentication routes see it: the limiters' counts and the store.
  \<open>login\<close> and \<open>changePassword\<close> are the two routes as a client reaches them, from the
  address \<open>ip\<close>.
\<close>

record auth_server =
  hits :: limits
  accounts :: db

definition login ::
  "(jsstring \<Rightarrow> jsstring) \<Rightarrow> config \<Rightarrow> int \<Rightarrow> jsstring \<Rightarrow> login_body \<Rightarrow> auth_server
   \<Rightarrow> (error + login_response) \<times> auth_server" where
  "login toLowerCase cfg now ip body sv =
     (case authLimiters cfg now ip (hits sv) of
        (Some e, h) \<Rightarrow> (Inl e, sv\<lparr>hits := h\<rparr>)
      | (None, h) \<Rightarrow>
          (case loginRoute toLowerCase cfg now body (accounts sv) of
             (r, d) \<Rightarrow> (r, \<lparr>hits = h, accounts = d\<rparr>)))"

text \<open>A run of login requests with one body; each request has its time and its address.\<close>

fun logins ::
  "(jsstring \<Rightarrow> jsstring) \<Rightarrow> config \<Rightarrow> (int \<times> jsstring) list \<Rightarrow> login_body \<Rightarrow> auth_server
   \<Rightarrow> auth_server" where
  "logins toLowerCase cfg [] body sv = sv"
| "logins toLowerCase cfg ((t, ip) # rs) body sv =
     logins toLowerCase cfg rs body (snd (login toLowerCase cfg t ip body sv))"

definition changePassword ::
  "config \<Rightarrow> int \<Rightarrow> jsstring \<Rightarrow> token option \<Rightarrow> jsstring \<Rightarrow> jsstring \<Rightarrow> auth_server
   \<Rightarrow> (error + unit) \<times> auth_server" where
  "changePassword cfg now ip bearer currentPassword newPassword sv =
     (case authLimiters cfg now ip (hits sv) of
        (Some e, h) \<Rightarrow> (Inl e, sv\<lparr>hits := h\<rparr>)
      | (None, h) \<Rightarrow>
          (case passwordRoute cfg now bearer currentPassword newPassword (accounts sv) of
             (r, d) \<Rightarrow> (r, \<lparr>hits = h, accounts = d\<rparr>)))"

section \<open>Sessions\<close>

text \<open>
  \<open>models/Session.js\<close>. \<open>Math.round(ms / 1000)\<close> on an integer of milliseconds rounds
  halves upwards.
\<close>

definition roundSeconds :: "int \<Rightarrow> int" where
  "roundSeconds ms = (ms + 500) div 1000"

text \<open>The virtual \<open>sessionDuration\<close>, read at time \<open>now\<close>.\<close>

definition sessionDuration :: "int \<Rightarrow> session \<Rightarrow> int" where
  "sessionDuration now s =
     (case endTime (metrics s) of
        Some e \<Rightarrow> roundSeconds (e - startTime (metrics s))
      | None \<Rightarrow> roundSeconds (now - startTime (metrics s)))"

definition platformEnum :: "jsstring list" where
  "platformEnum = [js ''leetcode'', js ''codeforces'', js ''codechef'', js ''hackerrank'']"

text \<open>
  What the schema validates on a save: the required strings are there and not empty, the
  platform is one of the enumeration, a rating lies between 1 and 5.
\<close>

definition validHint :: "hint \<Rightarrow> bool" where
  "validHint h = truthy (content h)"

definition validAnalysis :: "code_analysis \<Rightarrow> bool" where
  "validAnalysis a = (code a \<noteq> [] \<and> truthy (analysis a))"

definition validFeedback :: "feedback option \<Rightarrow> bool" where
  "validFeedback f =
     (case f of
        None \<Rightarrow> True
      | Some fb \<Rightarrow> (case rating fb of None \<Rightarrow> True | Some r \<Rightarrow> 1 \<le> r \<and> r \<le> 5))"

definition validSession :: "session \<Rightarrow> bool" where
  "validSession s =
     (sessionId s \<noteq> [] \<and> title (problem s) \<noteq> []
      \<and> problemPlatform (problem s) \<in> set platformEnum
      \<and> list_all validHint (hints s) \<and> list_all validAnalysis (codeAnalyses s)
      \<and> validFeedback (sessionFeedback s))"

text \<open>
  \<open>save()\<close> of a loaded session: rejected by the validation, which runs first, and by a
  store that is down; otherwise the stored document with the same \<open>_id\<close> becomes the loaded
  one.
\<close>

definition saveSession :: "session \<Rightarrow> db \<Rightarrow> (error + session) \<times> db" where
  "saveSession s d =
     (if \<not> validSession s then (Inl (Thrown (js ''Session validation failed'')), d)
      else if sessionsDown d then (Inl (Thrown (js ''store unavailable'')), d)
      else (Inr s, d\<lparr>sessions := map (\<lambda>x. if sid x = sid s then s else x) (sessions d)\<rparr>))"

text \<open>
  \<open>Session.create\<close>, with the schema's defaults; the \<open>_id\<close> is new and \<open>sessionId\<close> has a
  unique index.
\<close>

definition newSid :: "db \<Rightarrow> nat" where
  "newSid d = Suc (fold max (map sid (sessions d)) 0)"

definition createSession ::
  "int \<Rightarrow> nat option \<Rightarrow> jsstring \<Rightarrow> problem \<Rightarrow> jsstring \<Rightarrow> db \<Rightarrow> (error + session) \<times> db" where
  "createSession now owner newSessionId problemData version d =
     (let s = \<lparr>sid = newSid d, userId = owner, sessionId = newSessionId, problem = problemData,
               hints = [], codeAnalyses = [],
               metrics = \<lparr>startTime = now, endTime = None, duration = None, hintsRequested = 0,
                          analysesRequested = 0, codeSubmissions = 0, completed = False\<rparr>,
               sessionFeedback = None, extensionVersion = version, status = Active,
               isActive = True, createdAt = now\<rparr>
      in if \<not> validSession s then (Inl (Thrown (js ''Session validation failed'')), d)
         else if sessionsDown d then (Inl (Thrown (js ''store unavailable'')), d)
         else if list_ex (\<lambda>x. sessionId x = newSessionId) (sessions d)
         then (Inl (Thrown (js ''E11000 duplicate key error'')), d)
         else (Inr s, d\<lparr>sessions := sessions d @ [s]\<rparr>))"

definition addHint :: "hint \<Rightarrow> session \<Rightarrow> db \<Rightarrow> (error + session) \<times> db" where
  "addHint hintData s d =
     (let pushed = hints s @ [hintData]
      in saveSession
           (s\<lparr>hints := pushed, metrics := (metrics s)\<lparr>hintsRequested := length pushed\<rparr>\<rparr>) d)"

definition addCodeAnalysis :: "code_analysis \<Rightarrow> session \<Rightarrow> db \<Rightarrow> (error + session) \<times> db" where
  "addCodeAnalysis analysisData s d =
     (let pushed = codeAnalyses s @ [analysisData]
      in saveSession
           (s\<lparr>codeAnalyses := pushed,
              metrics := (metrics s)\<lparr>analysesRequested := length pushed\<rparr>\<rparr>) d)"

text \<open>
  \<open>endSession\<close>: the end time is written first, so the duration that the virtual gives is
  the one up to this new end time.
\<close>

definition endSessionDoc :: "int \<Rightarrow> bool \<Rightarrow> session \<Rightarrow> session" where
  "endSessionDoc now isCompleted s =
     (let s1 = s\<lparr>metrics := (metrics s)\<lparr>endTime := Some now\<rparr>\<rparr>;
          s2 = s1\<lparr>metrics := (metrics s1)\<lparr>duration := Some (sessionDuration now s1)\<rparr>\<rparr>;
          s3 = s2\<lparr>metrics := (metrics s2)\<lparr>completed := isCompleted\<rparr>\<rparr>;
          s4 = s3\<lparr>status := (if isCompleted then Completed else Abandoned)\<rparr>
      in s4\<lparr>isActive := False\<rparr>)"

definition endSession :: "int \<Rightarrow> bool \<Rightarrow> session \<Rightarrow> db \<Rightarrow> (error + session) \<times> db" where
  "endSession now isCompleted s d = saveSession (endSessionDoc now isCompleted s) d"

definition addFeedback :: "int \<Rightarrow> feedback \<Rightarrow> session \<Rightarrow> db \<Rightarrow> (error + session) \<times> db" where
  "addFeedback now feedbackData s d =
     saveSession (s\<lparr>sessionFeedback := Some (feedbackData\<lparr>submittedAt := now\<rparr>)\<rparr>) d"

text \<open>
  \<open>cleanupAbandonedSessions\<close>: one \<open>updateMany\<close> on the sessions that are \<open>active\<close> and
  were created more than two hours ago. It bypasses the documents' validation; a store
  that is down changes nothing.
\<close>

definition cleanupAbandonedSessions :: "int \<Rightarrow> db \<Rightarrow> db" where
  "cleanupAbandonedSessions now d =
     (let cutoffTime = now - 2 * 60 * 60 * 1000
      in if sessionsDown d then d
         else d\<lparr>sessions :=
                  map (\<lambda>s. if status s = Active \<and> createdAt s < cutoffTime
                           then s\<lparr>status := Abandoned, isActive := False\<rparr> else s)
                      (sessions d)\<rparr>)"

section \<open>Analytics events\<close>

definition eventTypeEnum :: "jsstring list" where
  "eventTypeEnum =
     [js ''hint_requested'', js ''code_analyzed'', js ''session_started'', js ''session_completed'',
      js ''user_registered'', js ''extension_installed'', js ''feedback_submitted'',
      js ''error_occurred'']"

definition validEvent :: "event \<Rightarrow> bool" where
  "validEvent e =
     (eventType e \<in> set eventTypeEnum
      \<and> (case eventPlatform e of None \<Rightarrow> True | Some p \<Rightarrow> p \<in> set platformEnum))"

text \<open>
  \<open>Analytics.recordEvent\<close> returns the promise of \<open>this.create\<close>: it is rejected when the
  document fails the schema's validation or the store refuses the write.
\<close>

definition recordEvent :: "event \<Rightarrow> db \<Rightarrow> (error + unit) \<times> db" where
  "recordEvent e d =
     (if \<not> validEvent e then (Inl (Thrown (js ''Analytics validation failed'')), d)
      else if eventType e \<in> set (eventsDown d)
      then (Inl (Thrown (js ''store unavailable'')), d)
      else (Inr (), d\<lparr>events := events d @ [e]\<rparr>))"

definition blankEvent :: "jsstring \<Rightarrow> event" where
  "blankEvent ty =
     \<lparr>eventType = ty, eventUserId = None, eventSessionId = None, eventPlatform = None,
      eventProblemTitle = None, eventHintNumber = None, eventCodeLength = None,
      eventResponseTime = None, eventErrorMessage = None\<rparr>"

section \<open>The AI routes\<close>

text \<open>
  A request to \<open>/api/ai\<close> after the rate limiters, \<open>optionalAuth\<close>, \<open>extensionAuth\<close> and the
  validation chain have let it through: the \<open>X-Session-ID\<close> and \<open>X-Extension-Version\<close>
  headers, \<open>req.user\<close>, and the body.
\<close>

record ai_request =
  reqSessionId :: "jsstring option"
  reqExtensionVersion :: jsstring
  reqUser :: "user option"
  reqReferer :: "jsstring option"
  reqProblemTitle :: jsstring
  reqProblemStatement :: "jsstring option"
  reqPlatform :: jsstring
  reqDifficulty :: "jsstring option"
  reqPreviousHints :: "jsstring list option"
  reqUserCode :: "jsstring option"

text \<open>
  What the world outside the server contributes to one request: the clock at the start
  of the handler, when a probe finishes, when the content is there, and in the \<open>catch\<close>
  block; the provider's answers to the probe and to the live call; and the UUID that
  \<open>crypto.randomUUID()\<close> would give.
\<close>

record world =
  clockStart :: int
  clockProbe :: int
  clockDone :: int
  clockCatch :: int
  probeReply :: provider_reply
  liveReply :: provider_reply
  randomUUID :: jsstring

record server =
  store :: db
  ai :: ai_state

definition findOrCreateSession ::
  "world \<Rightarrow> ai_request \<Rightarrow> problem \<Rightarrow> db \<Rightarrow> (error + session) \<times> db" where
  "findOrCreateSession w req problemData d =
     (case (if truthy (reqSessionId req)
            then find (\<lambda>s. Some (sessionId s) = reqSessionId req \<and> isActive s) (sessions d)
            else None) of
        Some s \<Rightarrow> (Inr s, d)
      | None \<Rightarrow>
          (let newSessionId = (case orElse (reqSessionId req) (Some (randomUUID w)) of
                                 Some i \<Rightarrow> i | None \<Rightarrow> randomUUID w)
           in case createSession (clockStart w) (map_option uid (reqUser req)) newSessionId
                     problemData (reqExtensionVersion req) d of
                (Inl e, d1) \<Rightarrow> (Inl e, d1)
              | (Inr s, d1) \<Rightarrow>
                  (case recordEvent
                          ((blankEvent (js ''session_started''))
                             \<lparr>eventUserId := map_option uid (reqUser req),
                              eventSessionId := Some (sid s),
                              eventPlatform := Some (problemPlatform problemData),
                              eventProblemTitle := Some (title problemData)\<rparr>) d1 of
                     (Inl e, d2) \<Rightarrow> (Inl e, d2)
                   | (Inr u, d2) \<Rightarrow> (Inr s, d2))))"

text \<open>\<open>s.substring(0, n)\<close> and the defaults of the destructured body.\<close>

definition substring0 :: "nat \<Rightarrow> jsstring \<Rightarrow> jsstring" where
  "substring0 n s = take n s"

definition orDefault :: "'a option \<Rightarrow> 'a \<Rightarrow> 'a" where
  "orDefault v dflt = (case v of None \<Rightarrow> dflt | Some x \<Rightarrow> x)"

definition aiOptions :: "ai_request \<Rightarrow> hint_options" where
  "aiOptions req =
     \<lparr>problemTitle = reqProblemTitle req,
      problemStatement = orDefault (reqProblemStatement req) [],
      platform = reqPlatform req,
      difficulty = orDefault (reqDifficulty req) (js ''Unknown''),
      previousHints = orDefault (reqPreviousHints req) [],
      userCode = orDefault (reqUserCode req) [],
      userLevel = (case reqUser req of
                     None \<Rightarrow> js ''intermediate''
                   | Some u \<Rightarrow> if hintStyle u = [] then js ''intermediate'' else hintStyle u)\<rparr>"

record hint_response =
  respHint :: "jsstring option"
  respHintNumber :: nat
  respSessionId :: jsstring
  respResponseTime :: int

text \<open>The \<open>try\<close> block of \<open>POST /api/ai/generate-hint\<close>.\<close>

definition generateHintTry :: "world \<Rightarrow> ai_request \<Rightarrow> server \<Rightarrow> (error + hint_response) \<times> server" where
  "generateHintTry w req sv =
     (let opts = aiOptions req
      in case findOrCreateSession w req
                \<lparr>title = problemTitle opts, problemPlatform = platform opts, url = reqReferer req,
                 problemDifficulty = Some (difficulty opts),
                 statement = substring0 1000 (problemStatement opts)\<rparr> (store sv) of
           (Inl e, d1) \<Rightarrow> (Inl e, sv\<lparr>store := d1\<rparr>)
         | (Inr s, d1) \<Rightarrow>
             (case generateHint (clockStart w) (clockProbe w) (probeReply w) (liveReply w) opts
                     (ai sv) of
                (Inl e, a1) \<Rightarrow> (Inl e, \<lparr>store = d1, ai = a1\<rparr>)
              | (Inr hint, a1) \<Rightarrow>
                  (let elapsed = clockDone w - clockStart w
                   in case addHint \<lparr>content = hint, timestamp = clockDone w,
                                    hintUserCode = substring0 1000 (userCode opts),
                                    codeLength = length (userCode opts),
                                    responseTime = elapsed\<rparr> s d1 of
                        (Inl e, d2) \<Rightarrow> (Inl e, \<lparr>store = d2, ai = a1\<rparr>)
                      | (Inr s', d2) \<Rightarrow>
                          (let d3 = (case reqUser req of
                                       None \<Rightarrow> d2
                                     | Some u \<Rightarrow> updateStats (clockDone w) OpHint u d2)
                           in case recordEvent
                                     ((blankEvent (js ''hint_requested''))
                                        \<lparr>eventUserId := map_option uid (reqUser req),
                                         eventSessionId := Some (sid s),
                                         eventPlatform := Some (platform opts),
                                         eventProblemTitle := Some (problemTitle opts),
                                         eventHintNumber := Some (length (previousHints opts) + 1),
                                         eventCodeLength := Some (length (userCode opts)),
                                         eventResponseTime := Some elapsed\<rparr>) d3 of
                                (Inl e, d4) \<Rightarrow> (Inl e, \<lparr>store = d4, ai = a1\<rparr>)
                              | (Inr u, d4) \<Rightarrow>
                                  (Inr \<lparr>respHint = hint,
                                        respHintNumber = length (previousHints opts) + 1,
                                        respSessionId = sessionId s,
                                        respResponseTime = elapsed\<rparr>,
                                   \<lparr>store = d4, ai = a1\<rparr>)))))"

text \<open>
  The handler: the \<open>try\<close> block, and the \<open>catch\<close> block that records an \<open>error_occurred\<close>
  event and hands the error to \<open>next\<close>. An exception inside the \<open>catch\<close> block reaches
  \<open>next\<close> through \<open>catchAsync\<close>. \<open>Inr\<close> is the 200 response.
\<close>

definition generateHintRoute :: "world \<Rightarrow> ai_request \<Rightarrow> server \<Rightarrow> (error + hint_response) \<times> server" where
  "generateHintRoute w req sv =
     (case generateHintTry w req sv of
        (Inr r, sv1) \<Rightarrow> (Inr r, sv1)
      | (Inl e, sv1) \<Rightarrow>
          (case recordEvent
                  ((blankEvent (js ''error_occurred''))
                     \<lparr>eventUserId := map_option uid (reqUser req),
                      eventPlatform := Some (reqPlatform req),
                      eventProblemTitle := Some (reqProblemTitle req),
                      eventResponseTime := Some (clockCatch w - clockStart w),
                      eventErrorMessage := Some (message e)\<rparr>) (store sv1) of
             (Inl e2, d) \<Rightarrow> (Inl e2, sv1\<lparr>store := d\<rparr>)
           | (Inr u, d) \<Rightarrow> (Inl e, sv1\<lparr>store := d\<rparr>)))"

text \<open>The route file's own \<open>detectCodeLanguage\<close> (it does not look for \<open>cout\<close>).\<close>

definition detectCodeLanguage :: "jsstring \<Rightarrow> jsstring" where
  "detectCodeLanguage c =
     (if includes_str c (js ''def '') \<or> includes_str c (js ''import '') \<or> includes_str c (js ''print('')
      then js ''python''
      else if includes_str c (js ''function'') \<or> includes_str c (js ''const '') \<or> includes_str c (js ''let '')
      then js ''javascript''
      else if includes_str c (js ''#include'') \<or> includes_str c (js ''int main'')
      then js ''cpp''
      else if includes_str c (js ''public class'') \<or> includes_str c (js ''System.out'')
      then js ''java''
      else if includes_str c (js ''package main'') \<or> includes_str c (js ''func '')
      then js ''go''
      else if includes_str c (js ''use '') \<or> includes_str c (js ''fn '')
      then js ''rust''
      else js ''unknown'')"

record analysis_response =
  respAnalysis :: "jsstring option"
  respAnalysisSessionId :: jsstring
  respAnalysisResponseTime :: int
  respCodeLanguage :: jsstring

text \<open>
  The \<open>try\<close> block of \<open>POST /api/ai/analyze-code\<close>. The analysis is a string, so its
  \<open>issues\<close> and \<open>suggestions\<close> are \<open>undefined\<close> and the stored lists are empty.
\<close>

definition analyzeCodeTry ::
  "world \<Rightarrow> ai_request \<Rightarrow> server \<Rightarrow> (error + analysis_response) \<times> server" where
  "analyzeCodeTry w req sv =
     (let opts = aiOptions req
      in case findOrCreateSession w req
                \<lparr>title = problemTitle opts, problemPlatform = platform opts, url = reqReferer req,
                 problemDifficulty = None,
                 statement = substring0 1000 (problemStatement opts)\<rparr> (store sv) of
           (Inl e, d1) \<Rightarrow> (Inl e, sv\<lparr>store := d1\<rparr>)
         | (Inr s, d1) \<Rightarrow>
             (case analyzeCode (clockStart w) (clockProbe w) (probeReply w) (liveReply w) opts
                     (ai sv) of
                (Inl e, a1) \<Rightarrow> (Inl e, \<lparr>store = d1, ai = a1\<rparr>)
              | (Inr result, a1) \<Rightarrow>
                  (let elapsed = clockDone w - clockStart w
                   in case addCodeAnalysis
                             \<lparr>code = substring0 5000 (userCode opts), analysis = result,
                              analysisTimestamp = clockDone w,
                              codeLanguage = detectCodeLanguage (userCode opts),
                              issues = [], suggestions = []\<rparr> s d1 of
                        (Inl e, d2) \<Rightarrow> (Inl e, \<lparr>store = d2, ai = a1\<rparr>)
                      | (Inr s', d2) \<Rightarrow>
                          (let d3 = (case reqUser req of
                                       None \<Rightarrow> d2
                                     | Some u \<Rightarrow> updateStats (clockDone w) OpAnalyze u d2)
                           in case recordEvent
                                     ((blankEvent (js ''code_analyzed''))
                                        \<lparr>eventUserId := map_option uid (reqUser req),
                                         eventSessionId := Some (sid s),
                                         eventPlatform := Some (platform opts),
                                         eventProblemTitle := Some (problemTitle opts),
                                         eventCodeLength := Some (length (userCode opts)),
                                         eventResponseTime := Some elapsed\<rparr>) d3 of
                                (Inl e, d4) \<Rightarrow> (Inl e, \<lparr>store = d4, ai = a1\<rparr>)
                              | (Inr u, d4) \<Rightarrow>
                                  (Inr \<lparr>respAnalysis = result,
                                        respAnalysisSessionId = sessionId s,
                                        respAnalysisResponseTime = elapsed,
                                        respCodeLanguage = detectCodeLanguage (userCode opts)\<rparr>,
                                   \<lparr>store = d4, ai = a1\<rparr>)))))"

definition analyzeCodeRoute ::
  "world \<Rightarrow> ai_request \<Rightarrow> server \<Rightarrow> (error + analysis_response) \<times> server" where
  "analyzeCodeRoute w req sv =
     (case analyzeCodeTry w req sv of
        (Inr r, sv1) \<Rightarrow> (Inr r, sv1)
      | (Inl e, sv1) \<Rightarrow>
          (case recordEvent
                  ((blankEvent (js ''error_occurred''))
                     \<lparr>eventUserId := map_option uid (reqUser req),
                      eventPlatform := Some (reqPlatform req),
                      eventProblemTitle := Some (reqProblemTitle req),
                      eventCodeLength := Some (length (orDefault (reqUserCode req) [])),
                      eventResponseTime := Some (clockCatch w - clockStart w),
                      eventErrorMessage := Some (message e)\<rparr>) (store sv1) of
             (Inl e2, d) \<Rightarrow> (Inl e2, sv1\<lparr>store := d\<rparr>)
           | (Inr u, d) \<Rightarrow> (Inl e, sv1\<lparr>store := d\<rparr>)))"

section \<open>Appends of several requests to one session\<close>






section \<open>Sample data\<close>

text \<open>
  The configuration's defaults (five attempts, a lock of thirty minutes, tokens that live
  seven days, a hundred requests per address in fifteen minutes), the account of the scenario \<open>alice / alice@x.com / password123\<close>, registered
  at time 500, a store that holds only this account, and two login bodies for it, as the
  login route reads them: \<open>identifier\<close> and \<open>password\<close>.
\<close>

definition sampleConfig :: config where
  "sampleConfig =
     \<lparr>jwtSecret = js ''cp-mentor-super-secret-key-change-in-production'',
      jwtExpiresIn = 7 * 24 * 60 * 60, maxLoginAttempts = 5, lockoutTime = 30 * 60 * 1000,
      maxRequests = 100\<rparr>"

definition alice :: user where
  "alice =
     \<lparr>uid = 1, email = js ''alice@x.com'', username = js ''alice'',
      password = Bcrypt (js ''password123''),
      security = \<lparr>loginAttempts = 0, lockUntil = None, passwordChangedAt = Some 500\<rparr>,
      stats = \<lparr>statsHintsRequested = 0, codeAnalyzed = 0, totalSessions = 0, lastActive = None\<rparr>,
      hintStyle = js ''intermediate'', accountActive = True\<rparr>"

definition sampleDb :: db where
  "sampleDb = \<lparr>users = [alice], sessions = [], events = [], eventsDown = [], sessionsDown = False\<rparr>"

text \<open>
  The server of the authentication routes with this store and limiters that have seen no
  request, and the addresses of two clients.
\<close>

definition sampleAuth :: auth_server where
  "sampleAuth = \<lparr>hits = \<lparr>generalHits = Map.empty, authHits = Map.empty\<rparr>, accounts = sampleDb\<rparr>"

definition clientA :: jsstring where
  "clientA = js ''203.0.113.7''"

definition clientB :: jsstring where
  "clientB = js ''198.51.100.23''"

definition wrongLogin :: login_body where
  "wrongLogin =
     \<lparr>bodyEmail = None, bodyUsername = None, bodyIdentifier = Some (js ''alice''),
      bodyPassword = Some (js ''letmein'')\<rparr>"

definition rightLogin :: login_body where
  "rightLogin =
     \<lparr>bodyEmail = None, bodyUsername = None, bodyIdentifier = Some (js ''alice''),
      bodyPassword = Some (js ''password123'')\<rparr>"

text \<open>
  A hint request for \<open>Two Sum\<close> on LeetCode with the correlation id \<open>attempt-1\<close> and no
  bearer token, a world in which the provider answers, and a server with the sample store
  and a healthy AI service. \<open>sampleSession\<close> is the session this request creates.
\<close>

definition sampleRequest :: ai_request where
  "sampleRequest =
     \<lparr>reqSessionId = Some (js ''attempt-1''), reqExtensionVersion = js ''1.0.0'',
      reqUser = None, reqReferer = None, reqProblemTitle = js ''Two Sum'',
      reqProblemStatement = None, reqPlatform = js ''leetcode'',
      reqDifficulty = Some (js ''Easy''), reqPreviousHints = None, reqUserCode = None\<rparr>"

definition sampleWorld :: world where
  "sampleWorld =
     \<lparr>clockStart = 1000, clockProbe = 1200, clockDone = 1500, clockCatch = 1600,
      probeReply = Inr (js ''OK''), liveReply = Inr (js ''Which pairs have you already seen?''),
      randomUUID = js ''0b9f6c1e''\<rparr>"

definition sampleServer :: server where
  "sampleServer = \<lparr>store = sampleDb, ai = \<lparr>isHealthy = True, lastHealthCheck = Some 0\<rparr>\<rparr>"

definition sampleSession :: session where
  "sampleSession =
     \<lparr>sid = 1, userId = None, sessionId = js ''attempt-1'',
      problem = \<lparr>title = js ''Two Sum'', problemPlatform = js ''leetcode'', url = None,
                 problemDifficulty = Some (js ''Easy''), statement = []\<rparr>,
      hints = [], codeAnalyses = [],
      metrics = \<lparr>startTime = 1000, endTime = None, duration = None, hintsRequested = 0,
                 analysesRequested = 0, codeSubmissions = 0, completed = False\<rparr>,
      sessionFeedback = None, extensionVersion = js ''1.0.0'', status = Active,
      isActive = True, createdAt = 1000\<rparr>"

definition sampleStore :: db where
  "sampleStore = sampleDb\<lparr>sessions := [sampleSession]\<rparr>"

text \<open>The same request to the analysis route, with a piece of code.\<close>

definition sampleAnalysisRequest :: ai_request where
  "sampleAnalysisRequest = sampleRequest\<lparr>reqUserCode := Some (js ''return 0'')\<rparr>"


text \<open>
  Five logins with a wrong password from the first client, one second apart, and the
  server after them.
\<close>

definition fiveWrongLogins :: "(int \<times> jsstring) list" where
  "fiveWrongLogins =
     [(1000, clientA), (2000, clientA), (3000, clientA), (4000, clientA), (5000, clientA)]"

definition lockedAuth :: auth_server where
  "lockedAuth = logins asciiLowerCase sampleConfig fiveWrongLogins wrongLogin sampleAuth"

text \<open>
  The token \<open>alice\<close> gets at time 1000, and the server after she changes her password at
  time 1999 with this token.
\<close>

definition oldToken :: token where
  "oldToken = signToken sampleConfig 1000 1"

definition changedAuth :: auth_server where
  "changedAuth =
     snd (changePassword sampleConfig 1999 clientA (Some oldToken) (js ''password123'')
            (js ''correct horse'') sampleAuth)"


section \<open>The session invariant of the specification\<close>

text \<open>A session that is not \<open>active\<close> has its \<open>endTime\<close> set.\<close>

definition endTimeSet :: "session \<Rightarrow> bool" where
  "endTimeSet s = (status s = Active \<or> endTime (metrics s) \<noteq> None)"

section \<open>Properties of the string functions\<close>

text \<open>
  \<open>includes_str\<close> is the substring relation: the model of \<open>includes\<close> is the intended
  one.
\<close>

lemma startsWith_iff: "startsWith s p \<longleftrightarrow> (\<exists>b. s = p @ b)"
  by (induction s p rule: startsWith.induct) auto

lemma includes_str_iff: "includes_str s p \<longleftrightarrow> (\<exists>a b. s = a @ p @ b)"
proof (induction s)
  case Nil
  then show ?case by simp
next
  case (Cons c cs)
  show ?case
  proof
    assume "includes_str (c # cs) p"
    then consider "startsWith (c # cs) p" | "includes_str cs p" by auto
    then show "\<exists>a b. c # cs = a @ p @ b"
    proof cases
      case 1
      then obtain b where "c # cs = p @ b" by (auto simp: startsWith_iff)
      then have "c # cs = [] @ p @ b" by simp
      then show ?thesis by blast
    next
      case 2
      then obtain a b where "cs = a @ p @ b" using Cons.IH by blast
      then have "c # cs = (c # a) @ p @ b" by simp
      then show ?thesis by blast
    qed
  next
    assume "\<exists>a b. c # cs = a @ p @ b"
    then obtain a b where ab: "c # cs = a @ p @ b" by blast
    show "includes_str (c # cs) p"
    proof (cases a)
      case Nil
      with ab have "startsWith (c # cs) p" by (auto simp: startsWith_iff)
      then show ?thesis by simp
    next
      case (Cons x xs)
      with ab have "cs = xs @ p @ b" by simp
      then have "includes_str cs p" using Cons.IH by blast
      then show ?thesis by simp
    qed
  qed
qed

lemma includes_str_set: "includes_str s p \<Longrightarrow> set p \<subseteq> set s"
  by (auto simp: includes_str_iff)

section \<open>Properties of the AI service\<close>

subsection \<open>The fallback ladder\<close>

lemma length_fallbackHints: "length (fallbackHints h) = 6"
  by (simp add: fallbackHints_def)

lemma distinct_fallbackHints: "distinct (fallbackHints h)"
  by (simp add: fallbackHints_def js_def)

lemma fallbackHints_nonempty: "s \<in> set (fallbackHints h) \<Longrightarrow> s \<noteq> []"
  by (auto simp: fallbackHints_def js_def split: if_splits)

lemma getFallbackHint_eq:
  "getFallbackHint n h p d = Some (fallbackHints h ! min n 5)"
  by (simp add: getFallbackHint_def at_def length_fallbackHints Let_def)

text \<open>
  Claim C3. When the live provider call of \<open>generateHint\<close> fails, the promise still
  resolves, to a non-empty string: the entry of the ladder at the index
  \<open>min(hintIndex, N - 1)\<close>, where \<open>hintIndex\<close> is the number of previous hints and \<open>N\<close> the
  length of the ladder. Two different indices up to \<open>N - 1\<close> give different strings, and
  every index from \<open>N - 1\<close> on gives the last entry.
\<close>

theorem generateHint_degraded:
  "(reply = Inl e \<longrightarrow>
     (\<exists>s. fst (generateHint now tprobe preply reply opts st) = Inr (Some s) \<and> s \<noteq> []
          \<and> Some s = at (fallbackHints (length (userCode opts) > 0))
                        (min (length (previousHints opts))
                             (length (fallbackHints (length (userCode opts) > 0)) - 1))))
   \<and> (\<forall>i j. i < j \<and> j \<le> length (fallbackHints h) - 1 \<longrightarrow>
          getFallbackHint i h p d \<noteq> getFallbackHint j h p d)
   \<and> (\<forall>n. n \<ge> length (fallbackHints h) - 1 \<longrightarrow>
          getFallbackHint n h p d = Some (last (fallbackHints h)))"
proof (intro conjI impI allI)
  assume lr: "reply = Inl e"
  let ?h = "length (userCode opts) > 0"
  let ?n = "length (previousHints opts)"
  have in_set: "fallbackHints ?h ! min ?n 5 \<in> set (fallbackHints ?h)"
    by (rule nth_mem) (simp add: length_fallbackHints)
  have "fst (generateHint now tprobe preply reply opts st)
          = Inr (Some (fallbackHints ?h ! min ?n 5))"
    using lr by (simp add: generateHint_def Let_def getFallbackHint_eq)
  moreover have "fallbackHints ?h ! min ?n 5 \<noteq> []"
    using in_set by (rule fallbackHints_nonempty)
  moreover have "Some (fallbackHints ?h ! min ?n 5)
      = at (fallbackHints ?h) (min ?n (length (fallbackHints ?h) - 1))"
    by (simp add: at_def length_fallbackHints)
  ultimately show "\<exists>s. fst (generateHint now tprobe preply reply opts st) = Inr (Some s) \<and> s \<noteq> []
          \<and> Some s = at (fallbackHints ?h) (min ?n (length (fallbackHints ?h) - 1))"
    by blast
next
  fix i j assume "i < j \<and> j \<le> length (fallbackHints h) - 1"
  then have ij: "i < 6" "j < 6" "i \<noteq> j" by (simp_all add: length_fallbackHints)
  then have "fallbackHints h ! i \<noteq> fallbackHints h ! j"
    using distinct_fallbackHints [of h] by (simp add: nth_eq_iff_index_eq length_fallbackHints)
  moreover have "min i 5 = i" "min j 5 = j" using ij by simp_all
  ultimately show "getFallbackHint i h p d \<noteq> getFallbackHint j h p d"
    by (simp add: getFallbackHint_eq)
next
  fix n assume "n \<ge> length (fallbackHints h) - 1"
  then have "min n 5 = 5" by (simp add: length_fallbackHints)
  moreover have "last (fallbackHints h) = fallbackHints h ! 5"
    by (simp add: fallbackHints_def)
  ultimately show "getFallbackHint n h p d = Some (last (fallbackHints h))"
    by (simp add: getFallbackHint_eq)
qed

text \<open>
  The same at a request with two previous hints and no code, and at the indices 0, 5
  and 9.
\<close>

theorem generateHint_degraded_witness:
  "fst (generateHint 1000 1000 (Inl (Thrown (js ''timeout''))) (Inl (Thrown (js ''timeout'')))
         \<lparr>problemTitle = js ''Two Sum'', problemStatement = [], platform = js ''leetcode'',
          difficulty = js ''Easy'', previousHints = [js ''first'', js ''second''], userCode = [],
          userLevel = js ''intermediate''\<rparr>
         \<lparr>isHealthy = False, lastHealthCheck = None\<rparr>)
     = Inr (Some (js ''Consider what data structures would be most helpful for efficient lookups or storage.''))
   \<and> getFallbackHint 0 False (js ''leetcode'') (js ''Easy'')
       \<noteq> getFallbackHint 5 False (js ''leetcode'') (js ''Easy'')
   \<and> getFallbackHint 9 False (js ''leetcode'') (js ''Easy'')
       = Some (js ''Time to start coding! Implement your approach and test with the examples.'')"
proof -
  let ?opts = "\<lparr>problemTitle = js ''Two Sum'', problemStatement = [], platform = js ''leetcode'',
          difficulty = js ''Easy'', previousHints = [js ''first'', js ''second''], userCode = [],
          userLevel = js ''intermediate''\<rparr>"
  note th = generateHint_degraded [of "Inl (Thrown (js ''timeout''))" "Thrown (js ''timeout'')"
      1000 1000 "Inl (Thrown (js ''timeout''))" ?opts
      "\<lparr>isHealthy = False, lastHealthCheck = None\<rparr>" False "js ''leetcode''" "js ''Easy''"]
  have a: "fst (generateHint 1000 1000 (Inl (Thrown (js ''timeout''))) (Inl (Thrown (js ''timeout'')))
         ?opts \<lparr>isHealthy = False, lastHealthCheck = None\<rparr>)
     = Inr (Some (js ''Consider what data structures would be most helpful for efficient lookups or storage.''))"
    by (simp add: generateHint_def probeDue_def getFallbackHint_def fallbackHints_def at_def)
  from th [THEN conjunct2, THEN conjunct1] have "\<forall>i j. i < j \<and> j \<le> length (fallbackHints False) - 1 \<longrightarrow>
      getFallbackHint i False (js ''leetcode'') (js ''Easy'')
        \<noteq> getFallbackHint j False (js ''leetcode'') (js ''Easy'')"
    .
  then have b: "getFallbackHint 0 False (js ''leetcode'') (js ''Easy'')
       \<noteq> getFallbackHint 5 False (js ''leetcode'') (js ''Easy'')"
    by (simp add: length_fallbackHints)
  from th [THEN conjunct2, THEN conjunct2] have "\<forall>n. n \<ge> length (fallbackHints False) - 1 \<longrightarrow>
      getFallbackHint n False (js ''leetcode'') (js ''Easy'') = Some (last (fallbackHints False))"
    .
  then have "getFallbackHint 9 False (js ''leetcode'') (js ''Easy'')
      = Some (last (fallbackHints False))"
    by (simp add: length_fallbackHints)
  then have c: "getFallbackHint 9 False (js ''leetcode'') (js ''Easy'')
       = Some (js ''Time to start coding! Implement your approach and test with the examples.'')"
    by (simp add: fallbackHints_def)
  from a b c show ?thesis by blast
qed

subsection \<open>The health state\<close>

text \<open>
  Claim C4, as the code has it. Only the probe writes the health state. A probe that the
  provider fails sets \<open>isHealthy\<close> to false; a probe that the provider answers sets it to
  whether the trimmed answer contains \<open>OK\<close>; either way \<open>lastHealthCheck\<close> becomes the time
  of the probe. \<open>generateHint\<close> and \<open>analyzeCode\<close> leave the state as the probe in front of
  the live call left it, when that probe was due, and untouched otherwise, whether the
  live call fails or not.
\<close>

theorem health_state_transitions:
  "isHealthy (snd (healthCheck t (Inl e) st)) = False
   \<and> isHealthy (snd (healthCheck t (Inr text) st)) = includes_str (trim text) (js ''OK'')
   \<and> lastHealthCheck (snd (healthCheck t r st)) = Some t
   \<and> snd (generateHint now tp pr lr opts st)
       = (if probeDue now st then snd (healthCheck tp pr st) else st)
   \<and> snd (analyzeCode now tp pr lr opts st)
       = (if probeDue now st then snd (healthCheck tp pr st) else st)"
  by (auto simp: healthCheck_def generateHint_def analyzeCode_def Let_def split: sum.splits)

text \<open>
  Claim C4 as stated fails: a live call that fails on a healthy service leaves it healthy.
\<close>

theorem failed_live_call_keeps_healthy:
  "\<not> (isHealthy (snd (generateHint 1000 1000 (Inl (Thrown (js ''timeout''))) (Inl (Thrown (js ''timeout'')))
         \<lparr>problemTitle = js ''Two Sum'', problemStatement = [], platform = js ''leetcode'',
          difficulty = js ''Easy'', previousHints = [], userCode = [],
          userLevel = js ''intermediate''\<rparr>
         \<lparr>isHealthy = True, lastHealthCheck = Some 0\<rparr>)) = False)"
  by (simp add: generateHint_def probeDue_def Let_def)

subsection \<open>The fallback analysis\<close>

lemma js_append: "js (a @ b) = js a @ js b"
  by (simp add: js_def)

lemma superscript_in_warning: "178 \<in> set nestedLoopWarning"
  by (simp add: nestedLoopWarning_def js_def)

lemma superscript_not_in_language: "178 \<notin> set (toUpperCase (detectLanguage c))"
  by (simp add: detectLanguage_def toUpperCase_def js_def)

lemma superscript_not_in_notes:
  "178 \<notin> set placeholderNote" "178 \<notin> set hashMapNote" "178 \<notin> set (nextSteps p)"
  by (simp_all add: placeholderNote_def hashMapNote_def nextSteps_def js_def)

lemma nextSteps_split:
  "nextSteps p = js ''**'' @ js ''Next Steps'' @ tl (tl (drop 10 (nextSteps p)))"
  by (simp add: nextSteps_def js_def)

lemma analysis_no_loop:
  "\<not> includes_str c (js ''for'') \<Longrightarrow> 178 \<notin> set (getFallbackCodeAnalysis c p)"
  by (simp add: getFallbackCodeAnalysis_def Let_def superscript_not_in_language
      superscript_not_in_notes) (simp add: js_def)

lemma analysis_loop:
  assumes "includes_str c (js ''for'')"
  shows "\<exists>a b. getFallbackCodeAnalysis c p = a @ nestedLoopWarning @ b"
proof -
  let ?head = "js ''**Code Analysis ('' @ toUpperCase (detectLanguage c) @ js ''):**''
                 @ js [CHR 0x0A, CHR 0x0A]"
  let ?rest = "(if includes_str c (js ''return []'') \<or> includes_str c (js ''return 0'')
                     \<or> includes_str c (js ''return None'') then placeholderNote else [])
               @ (if includes_str c (js ''dict'') \<or> includes_str c (js ''{}'')
                     \<or> includes_str c (js ''map'') \<or> includes_str c (js ''unordered_map'')
                  then hashMapNote else [])
               @ nextSteps p"
  have "getFallbackCodeAnalysis c p = ?head @ nestedLoopWarning @ ?rest"
    using assms by (simp add: getFallbackCodeAnalysis_def Let_def)
  then show ?thesis by blast
qed

lemma analysis_next_steps:
  "\<exists>a b. getFallbackCodeAnalysis c p = a @ js ''Next Steps'' @ b"
proof -
  obtain a where "getFallbackCodeAnalysis c p = a @ nextSteps p"
    by (simp add: getFallbackCodeAnalysis_def Let_def)
  then have "getFallbackCodeAnalysis c p
      = (a @ js ''**'') @ js ''Next Steps'' @ tl (tl (drop 10 (nextSteps p)))"
    using nextSteps_split [of p] by simp
  then show ?thesis by blast
qed

text \<open>
  Claim C10. For every code string the fallback analysis is not empty, contains
  \<open>Next Steps\<close>, and contains the nested-loop sentence exactly when the code contains
  \<open>for\<close> (once is enough: both conjuncts of the guard are the same test).
\<close>

theorem getFallbackCodeAnalysis_sections:
  "getFallbackCodeAnalysis c p \<noteq> []
   \<and> includes_str (getFallbackCodeAnalysis c p) (js ''Next Steps'')
   \<and> (includes_str (getFallbackCodeAnalysis c p) nestedLoopWarning
        \<longleftrightarrow> includes_str c (js ''for''))"
proof (intro conjI)
  show "getFallbackCodeAnalysis c p \<noteq> []"
    by (simp add: getFallbackCodeAnalysis_def Let_def nextSteps_def js_def)
  show "includes_str (getFallbackCodeAnalysis c p) (js ''Next Steps'')"
    using analysis_next_steps by (simp add: includes_str_iff)
  show "includes_str (getFallbackCodeAnalysis c p) nestedLoopWarning
        \<longleftrightarrow> includes_str c (js ''for'')"
  proof
    assume w: "includes_str (getFallbackCodeAnalysis c p) nestedLoopWarning"
    show "includes_str c (js ''for'')"
    proof (rule ccontr)
      assume "\<not> includes_str c (js ''for'')"
      then have "178 \<notin> set (getFallbackCodeAnalysis c p)" by (rule analysis_no_loop)
      moreover have "178 \<in> set (getFallbackCodeAnalysis c p)"
        using includes_str_set [OF w] superscript_in_warning by blast
      ultimately show False by simp
    qed
  next
    assume "includes_str c (js ''for'')"
    then show "includes_str (getFallbackCodeAnalysis c p) nestedLoopWarning"
      using analysis_loop by (simp add: includes_str_iff)
  qed
qed

section \<open>Properties of the accounts\<close>

subsection \<open>Lookups after an update\<close>

lemma find_map_preserve:
  "(\<And>x. P (g x) = P x) \<Longrightarrow> find P (map g xs) = map_option g (find P xs)"
  by (induction xs) auto

lemma findById_updateUser:
  assumes "\<And>x. uid (f x) = uid x"
  shows "findById i (updateUser j f d)
           = map_option (\<lambda>u. if uid u = j then f u else u) (findById i d)"
  unfolding findById_def updateUser_def using assms
  by (simp add: find_map_preserve)

lemma findByEmailOrUsername_updateUser:
  assumes "\<And>x. email (f x) = email x" and "\<And>x. username (f x) = username x"
  shows "findByEmailOrUsername lc ident (updateUser j f d)
           = map_option (\<lambda>u. if uid u = j then f u else u) (findByEmailOrUsername lc ident d)"
  unfolding findByEmailOrUsername_def updateUser_def using assms
  by (simp add: find_map_preserve)

subsection \<open>Lockout\<close>

text \<open>
  A request that reaches the login route with \<open>identifier\<close> and \<open>password\<close> only, and a wrong
  password for the account it names, is refused and counted.
\<close>

lemma loginRoute_wrong_password:
  assumes "\<not> truthy (bodyEmail body)" and "\<not> truthy (bodyUsername body)"
    and "bodyIdentifier body = Some ident" and "bodyPassword body = Some pw"
    and "findByEmailOrUsername lc ident d = Some u" and "\<not> comparePassword pw u"
  shows "loginRoute lc cfg t body d = (Inl IncorrectCredentials, incrementLoginAttempts cfg t u d)"
  using assms by (simp add: loginRoute_def checkAccountLock_def loginHandler_def)

lemma increment_below_threshold:
  assumes "findByEmailOrUsername lc ident d = Some u" and "lockUntil (security u) = None"
    and "loginAttempts (security u) + 1 < maxLoginAttempts cfg"
  shows "findByEmailOrUsername lc ident (incrementLoginAttempts cfg t u d)
           = Some (u\<lparr>security := (security u)\<lparr>loginAttempts := loginAttempts (security u) + 1\<rparr>\<rparr>)"
  using assms by (simp add: incrementLoginAttempts_def findByEmailOrUsername_updateUser)

lemma increment_at_threshold:
  assumes "findByEmailOrUsername lc ident d = Some u" and "lockUntil (security u) = None"
    and "loginAttempts (security u) + 1 \<ge> maxLoginAttempts cfg"
  shows "findByEmailOrUsername lc ident (incrementLoginAttempts cfg t u d)
           = Some (u\<lparr>security := (security u)\<lparr>loginAttempts := loginAttempts (security u) + 1,
                                               lockUntil := Some (t + lockoutTime cfg)\<rparr>\<rparr>)"
  using assms
  by (simp add: incrementLoginAttempts_def isLocked_def findByEmailOrUsername_updateUser)

lemma loginRoutes_append:
  "loginRoutes lc cfg (ts @ us) body d = loginRoutes lc cfg us body (loginRoutes lc cfg ts body d)"
  by (induction ts arbitrary: d) auto

text \<open>
  Wrong passwords below the threshold only count. On an account with no failed attempt
  and no lock, as many wrong passwords in a row as the configured maximum set \<open>lockUntil\<close>
  to the time of the last one plus the lockout time.
\<close>

lemma wrong_logins_count:
  assumes body: "\<not> truthy (bodyEmail body)" "\<not> truthy (bodyUsername body)"
      "bodyIdentifier body = Some ident" "bodyPassword body = Some pw"
  shows "findByEmailOrUsername lc ident d = Some u \<Longrightarrow> lockUntil (security u) = None \<Longrightarrow>
         \<not> comparePassword pw u \<Longrightarrow>
         loginAttempts (security u) + int (length ts) < maxLoginAttempts cfg \<Longrightarrow>
         \<exists>u'. findByEmailOrUsername lc ident (loginRoutes lc cfg ts body d) = Some u'
              \<and> lockUntil (security u') = None \<and> \<not> comparePassword pw u'
              \<and> loginAttempts (security u') = loginAttempts (security u) + int (length ts)"
proof (induction ts arbitrary: d u)
  case Nil
  then show ?case by simp
next
  case (Cons t ts)
  let ?u1 = "u\<lparr>security := (security u)\<lparr>loginAttempts := loginAttempts (security u) + 1\<rparr>\<rparr>"
  let ?d1 = "incrementLoginAttempts cfg t u d"
  have step: "loginRoute lc cfg t body d = (Inl IncorrectCredentials, ?d1)"
    using body Cons.prems(1,3) by (rule loginRoute_wrong_password)
  have below: "loginAttempts (security u) + 1 < maxLoginAttempts cfg"
    using Cons.prems(4) by simp
  have found: "findByEmailOrUsername lc ident ?d1 = Some ?u1"
    using Cons.prems(1,2) below by (rule increment_below_threshold)
  have "\<exists>u'. findByEmailOrUsername lc ident (loginRoutes lc cfg ts body ?d1) = Some u'
              \<and> lockUntil (security u') = None \<and> \<not> comparePassword pw u'
              \<and> loginAttempts (security u') = loginAttempts (security ?u1) + int (length ts)"
  proof (rule Cons.IH [OF found])
    show "lockUntil (security ?u1) = None" using Cons.prems(2) by simp
    show "\<not> comparePassword pw ?u1" using Cons.prems(3) by (simp add: comparePassword_def)
    show "loginAttempts (security ?u1) + int (length ts) < maxLoginAttempts cfg"
      using Cons.prems(4) by simp
  qed
  then show ?case using step by auto
qed

lemma wrong_logins_lock:
  assumes body: "\<not> truthy (bodyEmail body)" "\<not> truthy (bodyUsername body)"
      "bodyIdentifier body = Some ident" "bodyPassword body = Some pw"
    and found: "findByEmailOrUsername lc ident d = Some u"
    and fresh: "loginAttempts (security u) = 0" "lockUntil (security u) = None"
    and wrong: "\<not> comparePassword pw u"
    and count: "int (length ts) + 1 = maxLoginAttempts cfg"
  shows "\<exists>u'. findByEmailOrUsername lc ident (loginRoutes lc cfg (ts @ [t]) body d) = Some u'
              \<and> lockUntil (security u') = Some (t + lockoutTime cfg)
              \<and> loginAttempts (security u') = maxLoginAttempts cfg"
proof -
  have "loginAttempts (security u) + int (length ts) < maxLoginAttempts cfg"
    using fresh(1) count by simp
  with body found fresh(2) wrong
  obtain u1 where u1: "findByEmailOrUsername lc ident (loginRoutes lc cfg ts body d) = Some u1"
      "lockUntil (security u1) = None" "\<not> comparePassword pw u1"
      "loginAttempts (security u1) = loginAttempts (security u) + int (length ts)"
    using wrong_logins_count [of body ident pw lc d u ts cfg] by blast
  let ?d1 = "loginRoutes lc cfg ts body d"
  have step: "loginRoute lc cfg t body ?d1
                = (Inl IncorrectCredentials, incrementLoginAttempts cfg t u1 ?d1)"
    using body u1(1,3) by (rule loginRoute_wrong_password)
  have at: "loginAttempts (security u1) + 1 \<ge> maxLoginAttempts cfg"
    using u1(4) fresh(1) count by simp
  have "findByEmailOrUsername lc ident (incrementLoginAttempts cfg t u1 ?d1)
           = Some (u1\<lparr>security := (security u1)\<lparr>loginAttempts := loginAttempts (security u1) + 1,
                                               lockUntil := Some (t + lockoutTime cfg)\<rparr>\<rparr>)"
    using u1(1,2) at by (rule increment_at_threshold)
  moreover have "loginAttempts (security u1) + 1 = maxLoginAttempts cfg"
    using u1(4) fresh(1) count by simp
  ultimately show ?thesis
    using step by (simp add: loginRoutes_append)
qed

text \<open>
  When the body names the locked account in its \<open>email\<close> or \<open>username\<close> field, the route
  answers with the lock and the minutes left, whatever the password, and changes nothing.
\<close>

lemma checkAccountLock_locked:
  assumes "truthy (bodyEmail body) \<or> truthy (bodyUsername body)"
    and "orElse (bodyEmail body) (bodyUsername body) = Some ident"
    and "findByEmailOrUsername lc ident d = Some u"
    and "lockUntil (security u) = Some l" and "now < l"
  shows "loginRoute lc cfg now body d = (Inl (AccountLocked (ceilMinutes (l - now))), d)"
    and "0 < ceilMinutes (l - now)"
  using assms
  by (auto simp: loginRoute_def checkAccountLock_def isLocked_def ceilMinutes_def)

text \<open>
  The login handler reads \<open>identifier\<close>, and \<open>checkAccountLock\<close> does not: a body with
  \<open>identifier\<close> and the right password logs in, locked or not.
\<close>

lemma loginRoute_ignores_lock:
  assumes "\<not> truthy (bodyEmail body)" and "\<not> truthy (bodyUsername body)"
    and "bodyIdentifier body = Some ident" and "bodyPassword body = Some pw"
    and "findByEmailOrUsername lc ident d = Some u" and "comparePassword pw u"
    and "accountActive u"
  shows "fst (loginRoute lc cfg now body d) = Inr (createSendToken cfg now u)"
  using assms by (simp add: loginRoute_def checkAccountLock_def loginHandler_def Let_def)

text \<open>A request that the limiters let through is answered by the route.\<close>

lemma login_through_limiters:
  assumes "authLimiters cfg now ip (hits sv) = (None, h)"
  shows "login lc cfg now ip body sv
           = (fst (loginRoute lc cfg now body (accounts sv)),
              \<lparr>hits = h, accounts = snd (loginRoute lc cfg now body (accounts sv))\<rparr>)"
  using assms by (simp add: login_def split: prod.splits)

lemmas sample_defs = sampleConfig_def alice_def sampleDb_def wrongLogin_def rightLogin_def
  sampleAuth_def clientA_def clientB_def fiveWrongLogins_def lockedAuth_def oldToken_def
  changedAuth_def

lemmas login_defs = login_def loginRoute_def loginHandler_def checkAccountLock_def truthy_def
  findByEmailOrUsername_def findById_def comparePassword_def incrementLoginAttempts_def
  resetLoginAttempts_def updateStats_def createSendToken_def signToken_def
  updateUser_def isLocked_def asciiLowerCase_def authLimiters_def appLimiter_def
  authRateLimit_def rateLimit_def js_def Let_def

text \<open>The server after the five wrong logins: all five passed the limiters and were counted.\<close>

lemma lockedAuth_state:
  "map_option security (findById 1 (accounts lockedAuth))
     = Some \<lparr>loginAttempts = 5, lockUntil = Some 1805000, passwordChangedAt = Some 500\<rparr>"
  "authHits (hits lockedAuth) clientA = Some (5, 901000)"
  "authHits (hits lockedAuth) clientB = None"
  by (simp_all add: sample_defs login_defs)

text \<open>
  Claim C1, at the scenario of the specification. Five logins with a wrong password, from
  one address and one second apart, lock the account of \<open>alice\<close>: five attempts,
  \<open>lockUntil\<close> thirty minutes after the fifth. A sixth request from the same address one
  second later is stopped by the rate limiter, which allows five in fifteen minutes. A
  login with the right password that the limiter lets through, from another address at
  time 6000, or from the same address at time 1000000, after the limiter's window and
  long before \<open>lockUntil\<close>, is not refused with \<open>AccountLocked\<close>: it returns the 200 response
  with a token, and clears the counter and the lock.
\<close>

theorem locked_account_login_succeeds:
  "map_option security (findById 1 (accounts lockedAuth))
     = Some \<lparr>loginAttempts = 5, lockUntil = Some 1805000, passwordChangedAt = Some 500\<rparr>
   \<and> fst (login asciiLowerCase sampleConfig 6000 clientA rightLogin lockedAuth)
       = Inl TooManyRequests
   \<and> map_sum id responseUserId
        (fst (login asciiLowerCase sampleConfig 6000 clientB rightLogin lockedAuth)) = Inr 1
   \<and> map_option security
        (findById 1 (accounts (snd (login asciiLowerCase sampleConfig 6000 clientB rightLogin
                                      lockedAuth))))
       = Some \<lparr>loginAttempts = 0, lockUntil = None, passwordChangedAt = Some 500\<rparr>
   \<and> (1000000::int) < 1805000
   \<and> map_sum id responseUserId
        (fst (login asciiLowerCase sampleConfig 1000000 clientA rightLogin lockedAuth)) = Inr 1
   \<and> map_option security
        (findById 1 (accounts (snd (login asciiLowerCase sampleConfig 1000000 clientA rightLogin
                                      lockedAuth))))
       = Some \<lparr>loginAttempts = 0, lockUntil = None, passwordChangedAt = Some 500\<rparr>"
  by (simp add: sample_defs login_defs)

subsection \<open>Tokens and password changes\<close>

lemmas token_defs = verifyToken_def jwtVerify_def signToken_def parseIntSeconds_def
  changePassword_def passwordRoute_def savePassword_def findById_def comparePassword_def
  updateUser_def authLimiters_def appLimiter_def authRateLimit_def rateLimit_def js_def
  Let_def

text \<open>
  What \<open>verifyToken\<close> does with a token that has not expired, issued at \<open>t0\<close> to an active
  account whose password was changed at \<open>t1\<close>: it compares the whole seconds of the two
  times. The token is refused when the second of the change is later than the second of
  the issue, and otherwise accepted, with \<open>lastActive\<close> written.
\<close>

lemma verifyToken_after_change:
  assumes "findById i d = Some u" and "accountActive u"
    and "passwordChangedAt (security u) = Some t1"
    and "now div 1000 < t0 div 1000 + jwtExpiresIn cfg"
  shows "verifyToken cfg now (Some (signToken cfg t0 i)) d
           = (if t0 div 1000 < parseIntSeconds t1 then (Inl PasswordChangedAfterToken, d)
              else (Inr (u\<lparr>stats := (stats u)\<lparr>lastActive := Some now\<rparr>\<rparr>),
                    updateUser (uid u) (\<lambda>s. s\<lparr>stats := (stats s)\<lparr>lastActive := Some now\<rparr>\<rparr>) d))"
  using assms by (simp add: verifyToken_def jwtVerify_def signToken_def Let_def)

text \<open>
  Claim C2, at a change within the token's second. The token is issued at time 1000. At
  time 1999, later, the password is changed through the password route, which stamps
  \<open>passwordChangedAt\<close> with 1999. At time 2000 \<open>verifyToken\<close> does not refuse the old token:
  it grants access to the account.
\<close>

theorem old_token_accepted_within_second:
  "oldToken = signToken sampleConfig 1000 1 \<and> (1000::int) < 1999
   \<and> fst (changePassword sampleConfig 1999 clientA (Some oldToken) (js ''password123'')
            (js ''correct horse'') sampleAuth) = Inr ()
   \<and> map_option (passwordChangedAt \<circ> security) (findById 1 (accounts changedAuth))
       = Some (Some 1999)
   \<and> map_sum id uid (fst (verifyToken sampleConfig 2000 (Some oldToken) (accounts changedAuth)))
       = Inr 1"
  by (simp add: sample_defs token_defs)

text \<open>With the change at time 2500, in a later second, the same token is refused at 3000.\<close>

lemma old_token_refused_after_a_second:
  "fst (verifyToken sampleConfig 3000 (Some oldToken)
     (accounts (snd (changePassword sampleConfig 2500 clientA (Some oldToken)
            (js ''password123'') (js ''correct horse'') sampleAuth))))
   = Inl PasswordChangedAfterToken"
  by (simp add: sample_defs token_defs)

section \<open>Properties of the sessions\<close>

lemmas session_sample_defs = sampleDb_def alice_def sampleRequest_def sampleWorld_def
  sampleServer_def sampleSession_def sampleStore_def

lemmas session_defs = saveSession_def validSession_def validHint_def validAnalysis_def
  validFeedback_def platformEnum_def createSession_def newSid_def addHint_def
  addCodeAnalysis_def endSession_def endSessionDoc_def sessionDuration_def roundSeconds_def
  addFeedback_def truthy_def js_def Let_def

subsection \<open>Ending a session\<close>

lemma validSession_endSessionDoc: "validSession (endSessionDoc now c s) = validSession s"
  by (simp add: validSession_def endSessionDoc_def Let_def)

lemma sid_endSessionDoc: "sid (endSessionDoc now c s) = sid s"
  by (simp add: endSessionDoc_def Let_def)

lemma endSessionDoc_fields:
  "endSessionDoc now c s
     = s\<lparr>metrics := (metrics s)\<lparr>endTime := Some now,
                                 duration := Some (roundSeconds (now - startTime (metrics s))),
                                 completed := c\<rparr>,
          status := (if c then Completed else Abandoned), isActive := False\<rparr>"
  by (simp add: endSessionDoc_def sessionDuration_def Let_def)

lemma endSessionDoc_twice:
  "endSessionDoc now c (endSessionDoc now c s) = endSessionDoc now c s"
  by (simp add: endSessionDoc_fields)

text \<open>
  Claim C7, as the code has it. \<open>endSession\<close> does not look at the status. On every valid
  session, ended or not, and a store that takes the write, it sets \<open>endTime\<close> to the
  current time, \<open>duration\<close> to the rounded seconds from \<open>startTime\<close> to the current time,
  \<open>completed\<close> and \<open>status\<close> from its argument and \<open>isActive\<close> to false, leaves every other
  field as it was, and stores the result. Called again with the same argument at the same
  clock reading it changes nothing more.
\<close>

theorem endSession_overwrites:
  assumes "\<not> sessionsDown d" and "validSession s"
  shows "\<exists>s'. s' = s\<lparr>metrics := (metrics s)\<lparr>endTime := Some now,
                         duration := Some (roundSeconds (now - startTime (metrics s))),
                         completed := c\<rparr>,
                      status := (if c then Completed else Abandoned), isActive := False\<rparr>
            \<and> endSession now c s d
                = (Inr s', d\<lparr>sessions := map (\<lambda>x. if sid x = sid s then s' else x) (sessions d)\<rparr>)
            \<and> endSession now c s' (snd (endSession now c s d))
                = (Inr s', snd (endSession now c s d))"
proof -
  let ?s' = "endSessionDoc now c s"
  let ?d' = "d\<lparr>sessions := map (\<lambda>x. if sid x = sid s then ?s' else x) (sessions d)\<rparr>"
  have first: "endSession now c s d = (Inr ?s', ?d')"
    using assms
    by (simp add: endSession_def saveSession_def validSession_endSessionDoc sid_endSessionDoc)
  have "map (\<lambda>x. if sid x = sid s then ?s' else x)
          (map (\<lambda>x. if sid x = sid s then ?s' else x) (sessions d))
        = map (\<lambda>x. if sid x = sid s then ?s' else x) (sessions d)"
    by (simp add: sid_endSessionDoc)
  then have second: "endSession now c ?s' ?d' = (Inr ?s', ?d')"
    using assms
    by (simp add: endSession_def saveSession_def validSession_endSessionDoc sid_endSessionDoc
        endSessionDoc_twice)
  show ?thesis
    using first second by (simp add: endSessionDoc_fields [symmetric])
qed

text \<open>The same on the sample session, ended as completed at time 2000.\<close>

theorem endSession_overwrites_witness:
  "endSession 2000 True sampleSession sampleStore
     = (Inr (sampleSession\<lparr>metrics := (metrics sampleSession)\<lparr>endTime := Some 2000,
                 duration := Some 1, completed := True\<rparr>, status := Completed, isActive := False\<rparr>),
        sampleStore\<lparr>sessions :=
          [sampleSession\<lparr>metrics := (metrics sampleSession)\<lparr>endTime := Some 2000,
                 duration := Some 1, completed := True\<rparr>, status := Completed, isActive := False\<rparr>]\<rparr>)"
proof -
  have up: "\<not> sessionsDown sampleStore" by (simp add: sampleStore_def sampleDb_def)
  have valid: "validSession sampleSession"
    by (simp add: sampleSession_def validSession_def validFeedback_def platformEnum_def js_def)
  from endSession_overwrites [OF up valid, where now = 2000 and c = True]
  show ?thesis
    by (simp add: sampleStore_def sampleSession_def roundSeconds_def)
qed

text \<open>
  Claim C7 as stated fails: the sample session is ended as completed at 2000 and then
  ended again, as not completed, at 5000. The second call moves \<open>endTime\<close> from 2000 to
  5000, \<open>duration\<close> from 1 to 4 and \<open>status\<close> from \<open>completed\<close> to \<open>abandoned\<close>.
\<close>

theorem endSession_again_changes_session:
  "sessions (snd (endSession 2000 True sampleSession sampleStore))
     = [endSessionDoc 2000 True sampleSession]
   \<and> map status (sessions (snd (endSession 2000 True sampleSession sampleStore))) = [Completed]
   \<and> map (endTime \<circ> metrics) (sessions (snd (endSession 2000 True sampleSession sampleStore)))
       = [Some 2000]
   \<and> map (duration \<circ> metrics) (sessions (snd (endSession 2000 True sampleSession sampleStore)))
       = [Some 1]
   \<and> map status (sessions (snd (endSession 5000 False (endSessionDoc 2000 True sampleSession)
                 (snd (endSession 2000 True sampleSession sampleStore))))) = [Abandoned]
   \<and> map (endTime \<circ> metrics) (sessions (snd (endSession 5000 False (endSessionDoc 2000 True sampleSession)
                 (snd (endSession 2000 True sampleSession sampleStore))))) = [Some 5000]
   \<and> map (duration \<circ> metrics) (sessions (snd (endSession 5000 False (endSessionDoc 2000 True sampleSession)
                 (snd (endSession 2000 True sampleSession sampleStore))))) = [Some 4]"
  by (simp add: session_sample_defs session_defs)

subsection \<open>Finding a session again\<close>

text \<open>
  Claim C8. When the correlation id of a request is that of a stored session with
  \<open>isActive\<close>, \<open>findOrCreateSession\<close> returns that session and leaves the store as it is,
  and so does a second call with the same id, whatever problem descriptor either call
  brings: the same document comes back, and no session is added or changed.
\<close>

theorem findOrCreateSession_existing:
  assumes "X \<noteq> []" and "reqSessionId req1 = Some X" and "reqSessionId req2 = Some X"
    and "find (\<lambda>s. sessionId s = X \<and> isActive s) (sessions d) = Some s"
  shows "findOrCreateSession w1 req1 pd1 d = (Inr s, d)
         \<and> findOrCreateSession w2 req2 pd2 (snd (findOrCreateSession w1 req1 pd1 d)) = (Inr s, d)"
  using assms by (simp add: findOrCreateSession_def truthy_def)

text \<open>
  The same on the sample store, the second call with another problem descriptor.
\<close>

theorem findOrCreateSession_existing_witness:
  "findOrCreateSession sampleWorld sampleRequest (problem sampleSession) sampleStore
     = (Inr sampleSession, sampleStore)
   \<and> findOrCreateSession sampleWorld sampleRequest
        \<lparr>title = js ''Three Sum'', problemPlatform = js ''codeforces'', url = None,
         problemDifficulty = None, statement = []\<rparr>
        (snd (findOrCreateSession sampleWorld sampleRequest (problem sampleSession) sampleStore))
     = (Inr sampleSession, sampleStore)"
proof -
  have x: "js ''attempt-1'' \<noteq> []" by (simp add: js_def)
  have r: "reqSessionId sampleRequest = Some (js ''attempt-1'')" by (simp add: sampleRequest_def)
  have f: "find (\<lambda>s. sessionId s = js ''attempt-1'' \<and> isActive s) (sessions sampleStore)
             = Some sampleSession"
    by (simp add: sampleStore_def sampleSession_def)
  show ?thesis
    using findOrCreateSession_existing [OF x r r f] by simp
qed

text \<open>
  The round trip also holds when the first call had to create the session: the second
  call finds the one just created.
\<close>

lemma find_append:
  "find P (xs @ ys) = (case find P xs of None \<Rightarrow> find P ys | Some x \<Rightarrow> Some x)"
  by (induction xs) auto

lemma sessions_recordEvent: "sessions (snd (recordEvent e d)) = sessions d"
  by (simp add: recordEvent_def)

lemma findOrCreateSession_round_trip:
  assumes "X \<noteq> []" and "reqSessionId req1 = Some X" and "reqSessionId req2 = Some X"
    and "findOrCreateSession w1 req1 pd1 d = (Inr s, d')"
  shows "findOrCreateSession w2 req2 pd2 d' = (Inr s, d')"
proof (cases "find (\<lambda>s. sessionId s = X \<and> isActive s) (sessions d)")
  case (Some s0)
  with assms have "findOrCreateSession w1 req1 pd1 d = (Inr s0, d)"
    by (simp add: findOrCreateSession_def truthy_def)
  with assms(4) have "s0 = s" "d' = d" by simp_all
  with Some assms show ?thesis by (simp add: findOrCreateSession_def truthy_def)
next
  case None
  let ?c = "createSession (clockStart w1) (map_option uid (reqUser req1)) X pd1
              (reqExtensionVersion req1) d"
  from assms None obtain d1 where c: "?c = (Inr s, d1)" and d': "sessions d' = sessions d1"
    by (auto simp: findOrCreateSession_def truthy_def orElse_def Let_def recordEvent_def
        split: prod.splits sum.splits if_splits)
  from c have "sessions d1 = sessions d @ [s]" "sessionId s = X" "isActive s"
    by (auto simp: createSession_def Let_def split: if_splits)
  with None d' have "find (\<lambda>s. sessionId s = X \<and> isActive s) (sessions d') = Some s"
    by (simp add: find_append)
  with assms show ?thesis by (simp add: findOrCreateSession_def truthy_def)
qed

subsection \<open>The invariant on the end time\<close>

text \<open>
  Creating a session, appending a hint or an analysis, recording feedback and ending a
  session keep the invariant on every stored session.
\<close>

lemma saveSession_keeps_invariant:
  assumes "list_all endTimeSet (sessions d)" and "endTimeSet s"
  shows "list_all endTimeSet (sessions (snd (saveSession s d)))"
  using assms by (auto simp: saveSession_def list_all_iff)

lemma createSession_keeps_invariant:
  assumes "list_all endTimeSet (sessions d)"
  shows "list_all endTimeSet (sessions (snd (createSession t ow i p v d)))"
  using assms by (auto simp: createSession_def Let_def endTimeSet_def)

lemma createSession_active:
  assumes "createSession t ow i p v d = (Inr s, d')"
  shows "endTimeSet s"
  using assms by (auto simp: createSession_def Let_def endTimeSet_def split: if_splits)

lemma addHint_keeps_invariant:
  assumes "list_all endTimeSet (sessions d)" and "endTimeSet s"
  shows "list_all endTimeSet (sessions (snd (addHint h s d)))"
  unfolding addHint_def Let_def
  by (rule saveSession_keeps_invariant [OF assms(1)]) (use assms(2) in \<open>simp add: endTimeSet_def\<close>)

lemma addCodeAnalysis_keeps_invariant:
  assumes "list_all endTimeSet (sessions d)" and "endTimeSet s"
  shows "list_all endTimeSet (sessions (snd (addCodeAnalysis a s d)))"
  unfolding addCodeAnalysis_def Let_def
  by (rule saveSession_keeps_invariant [OF assms(1)]) (use assms(2) in \<open>simp add: endTimeSet_def\<close>)

lemma addFeedback_keeps_invariant:
  assumes "list_all endTimeSet (sessions d)" and "endTimeSet s"
  shows "list_all endTimeSet (sessions (snd (addFeedback t f s d)))"
  unfolding addFeedback_def
  by (rule saveSession_keeps_invariant [OF assms(1)]) (use assms(2) in \<open>simp add: endTimeSet_def\<close>)

lemma endSession_keeps_invariant:
  assumes "list_all endTimeSet (sessions d)"
  shows "list_all endTimeSet (sessions (snd (endSession t c s d)))"
  unfolding endSession_def
  by (rule saveSession_keeps_invariant [OF assms]) (simp add: endTimeSet_def endSessionDoc_fields)

lemma sessions_findOrCreateSession:
  "sessions (snd (findOrCreateSession w req pd d)) = sessions d
   \<or> sessions (snd (findOrCreateSession w req pd d))
       = sessions (snd (createSession (clockStart w) (map_option uid (reqUser req))
            (case orElse (reqSessionId req) (Some (randomUUID w)) of
               Some i \<Rightarrow> i | None \<Rightarrow> randomUUID w)
            pd (reqExtensionVersion req) d))"
proof -
  have "sessions (snd (case c of (Inl e, d1) \<Rightarrow> (Inl e :: error + session, d1)
              | (Inr s, d1) \<Rightarrow> (case recordEvent (ev s) d1 of (Inl e, d2) \<Rightarrow> (Inl e, d2)
                                 | (Inr u, d2) \<Rightarrow> (Inr s, d2))))
           = sessions (snd c)" for c ev
    using sessions_recordEvent
    by (auto split: prod.splits sum.splits) (metis snd_conv)+
  then show ?thesis
    by (simp add: findOrCreateSession_def Let_def split: option.splits)
qed

lemma findOrCreateSession_keeps_invariant:
  assumes "list_all endTimeSet (sessions d)"
  shows "list_all endTimeSet (sessions (snd (findOrCreateSession w req pd d)))"
  using sessions_findOrCreateSession [of w req pd d] assms
    createSession_keeps_invariant [OF assms]
  by auto

text \<open>An append that is saved adds its hint at the end and counts it.\<close>

lemma addHint_counts:
  assumes "addHint h s d = (Inr s', d')"
  shows "hints s' = hints s @ [h]" and "hintsRequested (metrics s') = length (hints s) + 1"
  using assms by (auto simp: addHint_def saveSession_def Let_def split: if_splits)

lemmas route_defs = generateHintRoute_def generateHintTry_def analyzeCodeRoute_def
  analyzeCodeTry_def findOrCreateSession_def aiOptions_def orDefault_def orElse_def
  recordEvent_def validEvent_def eventTypeEnum_def blankEvent_def generateHint_def analyzeCode_def
  probeDue_def substring0_def trim_def isWhiteSpace_def

text \<open>
  Claim C6, at the sweep. The sample request creates a session at time 1000, which is
  \<open>active\<close>. The sweep, run a little over two hours later, marks it \<open>abandoned\<close> and does
  not write an \<open>endTime\<close>: the stored session breaks the invariant.
\<close>

theorem sweep_leaves_endTime_unset:
  "map status (sessions (store (snd (generateHintRoute sampleWorld sampleRequest sampleServer))))
     = [Active]
   \<and> map status
       (sessions (cleanupAbandonedSessions 7201001
          (store (snd (generateHintRoute sampleWorld sampleRequest sampleServer)))))
     = [Abandoned]
   \<and> map (endTime \<circ> metrics)
       (sessions (cleanupAbandonedSessions 7201001
          (store (snd (generateHintRoute sampleWorld sampleRequest sampleServer)))))
     = [None]
   \<and> map endTimeSet
       (sessions (cleanupAbandonedSessions 7201001
          (store (snd (generateHintRoute sampleWorld sampleRequest sampleServer)))))
     = [False]"
  by (simp add: session_sample_defs session_defs route_defs cleanupAbandonedSessions_def
      endTimeSet_def)

section \<open>Properties of the AI routes\<close>

subsection \<open>The event store's refusals and the other collections\<close>

text \<open>
  Which event types the store refuses matters to \<open>recordEvent\<close> only: every other
  operation does the same with and without refusals, and none changes them.
\<close>

lemma createSession_eventsDown:
  "createSession t ow i p v (d\<lparr>eventsDown := l\<rparr>)
     = apsnd (\<lambda>x. x\<lparr>eventsDown := l\<rparr>) (createSession t ow i p v d)"
  by (simp add: createSession_def newSid_def Let_def)

lemma saveSession_eventsDown:
  "saveSession s (d\<lparr>eventsDown := l\<rparr>) = apsnd (\<lambda>x. x\<lparr>eventsDown := l\<rparr>) (saveSession s d)"
  by (simp add: saveSession_def)

lemma addHint_eventsDown:
  "addHint h s (d\<lparr>eventsDown := l\<rparr>) = apsnd (\<lambda>x. x\<lparr>eventsDown := l\<rparr>) (addHint h s d)"
  by (simp add: addHint_def Let_def saveSession_eventsDown)

lemma addCodeAnalysis_eventsDown:
  "addCodeAnalysis a s (d\<lparr>eventsDown := l\<rparr>)
     = apsnd (\<lambda>x. x\<lparr>eventsDown := l\<rparr>) (addCodeAnalysis a s d)"
  by (simp add: addCodeAnalysis_def Let_def saveSession_eventsDown)

lemma updateStats_eventsDown:
  "updateStats t operation u (d\<lparr>eventsDown := l\<rparr>) = (updateStats t operation u d)\<lparr>eventsDown := l\<rparr>"
  by (simp add: updateStats_def updateUser_def)

lemma recordEvent_accepted:
  assumes "eventsDown d = []" and "eventType e \<notin> set l"
  shows "recordEvent e (d\<lparr>eventsDown := l\<rparr>) = apsnd (\<lambda>x. x\<lparr>eventsDown := l\<rparr>) (recordEvent e d)"
  using assms by (simp add: recordEvent_def)

lemma recordEvent_rejected:
  assumes "validEvent e" and "eventType e \<in> set l"
  shows "recordEvent e (d\<lparr>eventsDown := l\<rparr>) = (Inl (Thrown (js ''store unavailable'')), d\<lparr>eventsDown := l\<rparr>)"
  using assms by (simp add: recordEvent_def)

lemma eventsDown_saveSession: "eventsDown (snd (saveSession s d)) = eventsDown d"
  by (simp add: saveSession_def)

lemma eventsDown_createSession: "eventsDown (snd (createSession t ow i p v d)) = eventsDown d"
  by (simp add: createSession_def Let_def)

lemma eventsDown_recordEvent: "eventsDown (snd (recordEvent e d)) = eventsDown d"
  by (simp add: recordEvent_def)

lemma eventsDown_updateStats: "eventsDown (updateStats t operation u d) = eventsDown d"
  by (simp add: updateStats_def updateUser_def)

lemma eventsDown_findOrCreateSession:
  "eventsDown (snd (findOrCreateSession w req pd d)) = eventsDown d"
proof -
  have "\<And>c. eventsDown (snd (case c of (Inl e, d1) \<Rightarrow> (Inl e :: error + session, d1)
              | (Inr s, d1) \<Rightarrow> (case recordEvent (ev s) d1 of (Inl e, d2) \<Rightarrow> (Inl e, d2)
                                 | (Inr u, d2) \<Rightarrow> (Inr s, d2))))
           = eventsDown (snd c)" for ev
    using eventsDown_recordEvent
    by (auto split: prod.splits sum.splits) (metis snd_conv)+
  then show ?thesis
    by (simp add: findOrCreateSession_def Let_def eventsDown_createSession split: option.splits)
qed

lemma findOrCreateSession_eventsDown:
  assumes "eventsDown d = []" and "js ''session_started'' \<notin> set l"
  shows "findOrCreateSession w req pd (d\<lparr>eventsDown := l\<rparr>)
           = apsnd (\<lambda>x. x\<lparr>eventsDown := l\<rparr>) (findOrCreateSession w req pd d)"
proof -
  have rec: "recordEvent e (d1\<lparr>eventsDown := l\<rparr>) = apsnd (\<lambda>x. x\<lparr>eventsDown := l\<rparr>) (recordEvent e d1)"
    if "eventType e = js ''session_started''" and "eventsDown d1 = []" for e d1
    using that assms(2) by (simp add: recordEvent_accepted)
  have down: "eventsDown d1 = []" if "createSession t ow i p v d = (r, d1)" for t ow i p v r d1
    using that eventsDown_createSession [of t ow i p v d] assms(1) by simp
  show ?thesis
    unfolding findOrCreateSession_def Let_def
    by (auto simp: createSession_eventsDown rec down blankEvent_def
        split: option.splits prod.splits sum.splits)
qed

lemma recordEvent_Inr:
  assumes "recordEvent e d = (Inr u, d')"
  shows "validEvent e" and "d' = d\<lparr>events := events d @ [e]\<rparr>"
  using assms by (auto simp: recordEvent_def split: if_splits)

subsection \<open>A refused event fails the request\<close>

lemma hint_route_record_down:
  assumes up: "eventsDown (store sv) = []"
    and ok: "generateHintRoute w req sv = (Inr r, sv')"
  shows "generateHintRoute w req (sv\<lparr>store := (store sv)\<lparr>eventsDown := [js ''hint_requested'']\<rparr>\<rparr>)
           = (Inl (Thrown (js ''store unavailable'')),
              sv'\<lparr>store := (store sv')
                 \<lparr>eventsDown := [js ''hint_requested''],
                  events := butlast (events (store sv'))
                    @ [(blankEvent (js ''error_occurred''))
                         \<lparr>eventUserId := map_option uid (reqUser req),
                          eventPlatform := Some (reqPlatform req),
                          eventProblemTitle := Some (reqProblemTitle req),
                          eventResponseTime := Some (clockCatch w - clockStart w),
                          eventErrorMessage := Some (js ''store unavailable'')\<rparr>]\<rparr>\<rparr>)
         \<and> events (store sv') \<noteq> []
         \<and> eventType (last (events (store sv'))) = js ''hint_requested''"
proof -
  let ?l = "[js ''hint_requested'']"
  let ?D = "\<lambda>x. x\<lparr>eventsDown := ?l\<rparr>"
  let ?opts = "aiOptions req"
  let ?pd = "\<lparr>title = problemTitle ?opts, problemPlatform = platform ?opts, url = reqReferer req,
                 problemDifficulty = Some (difficulty ?opts),
                 statement = substring0 1000 (problemStatement ?opts)\<rparr>"
  let ?elapsed = "clockDone w - clockStart w"
  let ?ev = "\<lambda>s. (blankEvent (js ''hint_requested''))
                                        \<lparr>eventUserId := map_option uid (reqUser req),
                                         eventSessionId := Some (sid s),
                                         eventPlatform := Some (platform ?opts),
                                         eventProblemTitle := Some (problemTitle ?opts),
                                         eventHintNumber := Some (length (previousHints ?opts) + 1),
                                         eventCodeLength := Some (length (userCode ?opts)),
                                         eventResponseTime := Some ?elapsed\<rparr>"
  let ?d3 = "\<lambda>d2. (case reqUser req of None \<Rightarrow> d2
                                     | Some u \<Rightarrow> updateStats (clockDone w) OpHint u d2)"
  from ok have tr: "generateHintTry w req sv = (Inr r, sv')"
    by (auto simp: generateHintRoute_def split: prod.splits sum.splits)
  then obtain s d1 hint a1 s' d2 u d4 where
    foc: "findOrCreateSession w req ?pd (store sv) = (Inr s, d1)" and
    gh: "generateHint (clockStart w) (clockProbe w) (probeReply w) (liveReply w) ?opts (ai sv)
           = (Inr hint, a1)" and
    ah: "addHint \<lparr>content = hint, timestamp = clockDone w,
                                    hintUserCode = substring0 1000 (userCode ?opts),
                                    codeLength = length (userCode ?opts),
                                    responseTime = ?elapsed\<rparr> s d1 = (Inr s', d2)" and
    re: "recordEvent (?ev s) (?d3 d2) = (Inr u, d4)" and
    sv': "sv' = \<lparr>store = d4, ai = a1\<rparr>"
    unfolding generateHintTry_def Let_def
    by (auto split: prod.splits sum.splits)
  have foc': "findOrCreateSession w req ?pd (?D (store sv)) = (Inr s, ?D d1)"
    using foc up by (simp add: findOrCreateSession_eventsDown js_def)
  have ah': "addHint \<lparr>content = hint, timestamp = clockDone w,
                                    hintUserCode = substring0 1000 (userCode ?opts),
                                    codeLength = length (userCode ?opts),
                                    responseTime = ?elapsed\<rparr> s (?D d1) = (Inr s', ?D d2)"
    using ah by (simp add: addHint_eventsDown)
  have d3': "?d3 (?D d2) = ?D (?d3 d2)"
    by (simp add: updateStats_eventsDown split: option.splits)
  have valid: "validEvent (?ev s)"
    using recordEvent_Inr(1) [OF re] .
  have re': "recordEvent (?ev s) (?D (?d3 d2))
               = (Inl (Thrown (js ''store unavailable'')), ?D (?d3 d2))"
    using valid by (simp add: recordEvent_rejected blankEvent_def)
  have tr': "generateHintTry w req (sv\<lparr>store := ?D (store sv)\<rparr>)
               = (Inl (Thrown (js ''store unavailable'')), \<lparr>store = ?D (?d3 d2), ai = a1\<rparr>)"
    unfolding generateHintTry_def Let_def
    using re' by (simp add: foc' gh ah' d3' blankEvent_def)
  let ?err = "(blankEvent (js ''error_occurred''))
                     \<lparr>eventUserId := map_option uid (reqUser req),
                      eventPlatform := Some (reqPlatform req),
                      eventProblemTitle := Some (reqProblemTitle req),
                      eventResponseTime := Some (clockCatch w - clockStart w),
                      eventErrorMessage := Some (js ''store unavailable'')\<rparr>"
  from valid have "validEvent ?err"
    by (simp add: validEvent_def blankEvent_def aiOptions_def eventTypeEnum_def js_def)
  then have ct: "recordEvent ?err (?D (?d3 d2))
                      = (Inr (), (?D (?d3 d2))\<lparr>events := events (?d3 d2) @ [?err]\<rparr>)"
    by (simp add: recordEvent_def blankEvent_def js_def)
  have route: "generateHintRoute w req (sv\<lparr>store := ?D (store sv)\<rparr>)
      = (Inl (Thrown (js ''store unavailable'')),
         \<lparr>store = (?D (?d3 d2))\<lparr>events := events (?d3 d2) @ [?err]\<rparr>, ai = a1\<rparr>)"
    unfolding generateHintRoute_def by (simp add: tr' ct)
  have d4: "d4 = (?d3 d2)\<lparr>events := events (?d3 d2) @ [?ev s]\<rparr>"
    using recordEvent_Inr(2) [OF re] .
  show ?thesis
    using route sv' d4 by (simp add: blankEvent_def)
qed

lemma analysis_route_record_down:
  assumes up: "eventsDown (store sv) = []"
    and ok: "analyzeCodeRoute w req sv = (Inr r, sv')"
  shows "analyzeCodeRoute w req (sv\<lparr>store := (store sv)\<lparr>eventsDown := [js ''code_analyzed'']\<rparr>\<rparr>)
           = (Inl (Thrown (js ''store unavailable'')),
              sv'\<lparr>store := (store sv')
                 \<lparr>eventsDown := [js ''code_analyzed''],
                  events := butlast (events (store sv'))
                    @ [(blankEvent (js ''error_occurred''))
                         \<lparr>eventUserId := map_option uid (reqUser req),
                          eventPlatform := Some (reqPlatform req),
                          eventProblemTitle := Some (reqProblemTitle req),
                          eventCodeLength := Some (length (orDefault (reqUserCode req) [])),
                          eventResponseTime := Some (clockCatch w - clockStart w),
                          eventErrorMessage := Some (js ''store unavailable'')\<rparr>]\<rparr>\<rparr>)
         \<and> events (store sv') \<noteq> []
         \<and> eventType (last (events (store sv'))) = js ''code_analyzed''"
proof -
  let ?l = "[js ''code_analyzed'']"
  let ?D = "\<lambda>x. x\<lparr>eventsDown := ?l\<rparr>"
  let ?opts = "aiOptions req"
  let ?pd = "\<lparr>title = problemTitle ?opts, problemPlatform = platform ?opts, url = reqReferer req,
                 problemDifficulty = None,
                 statement = substring0 1000 (problemStatement ?opts)\<rparr>"
  let ?elapsed = "clockDone w - clockStart w"
  let ?ev = "\<lambda>s. (blankEvent (js ''code_analyzed''))
                                        \<lparr>eventUserId := map_option uid (reqUser req),
                                         eventSessionId := Some (sid s),
                                         eventPlatform := Some (platform ?opts),
                                         eventProblemTitle := Some (problemTitle ?opts),
                                         eventCodeLength := Some (length (userCode ?opts)),
                                         eventResponseTime := Some ?elapsed\<rparr>"
  let ?d3 = "\<lambda>d2. (case reqUser req of None \<Rightarrow> d2
                                     | Some u \<Rightarrow> updateStats (clockDone w) OpAnalyze u d2)"
  from ok have tr: "analyzeCodeTry w req sv = (Inr r, sv')"
    by (auto simp: analyzeCodeRoute_def split: prod.splits sum.splits)
  then obtain s d1 result a1 s' d2 u d4 where
    foc: "findOrCreateSession w req ?pd (store sv) = (Inr s, d1)" and
    gh: "analyzeCode (clockStart w) (clockProbe w) (probeReply w) (liveReply w) ?opts (ai sv)
           = (Inr result, a1)" and
    ah: "addCodeAnalysis
                             \<lparr>code = substring0 5000 (userCode ?opts), analysis = result,
                              analysisTimestamp = clockDone w,
                              codeLanguage = detectCodeLanguage (userCode ?opts),
                              issues = [], suggestions = []\<rparr> s d1 = (Inr s', d2)" and
    re: "recordEvent (?ev s) (?d3 d2) = (Inr u, d4)" and
    sv': "sv' = \<lparr>store = d4, ai = a1\<rparr>"
    unfolding analyzeCodeTry_def Let_def
    by (auto split: prod.splits sum.splits)
  have foc': "findOrCreateSession w req ?pd (?D (store sv)) = (Inr s, ?D d1)"
    using foc up by (simp add: findOrCreateSession_eventsDown js_def)
  have ah': "addCodeAnalysis
                             \<lparr>code = substring0 5000 (userCode ?opts), analysis = result,
                              analysisTimestamp = clockDone w,
                              codeLanguage = detectCodeLanguage (userCode ?opts),
                              issues = [], suggestions = []\<rparr> s (?D d1) = (Inr s', ?D d2)"
    using ah by (simp add: addCodeAnalysis_eventsDown)
  have d3': "?d3 (?D d2) = ?D (?d3 d2)"
    by (simp add: updateStats_eventsDown split: option.splits)
  have valid: "validEvent (?ev s)"
    using recordEvent_Inr(1) [OF re] .
  have re': "recordEvent (?ev s) (?D (?d3 d2))
               = (Inl (Thrown (js ''store unavailable'')), ?D (?d3 d2))"
    using valid by (simp add: recordEvent_rejected blankEvent_def)
  have tr': "analyzeCodeTry w req (sv\<lparr>store := ?D (store sv)\<rparr>)
               = (Inl (Thrown (js ''store unavailable'')), \<lparr>store = ?D (?d3 d2), ai = a1\<rparr>)"
    unfolding analyzeCodeTry_def Let_def
    using re' by (simp add: foc' gh ah' d3' blankEvent_def)
  let ?err = "(blankEvent (js ''error_occurred''))
                     \<lparr>eventUserId := map_option uid (reqUser req),
                      eventPlatform := Some (reqPlatform req),
                      eventProblemTitle := Some (reqProblemTitle req),
                      eventCodeLength := Some (length (orDefault (reqUserCode req) [])),
                      eventResponseTime := Some (clockCatch w - clockStart w),
                      eventErrorMessage := Some (js ''store unavailable'')\<rparr>"
  from valid have "validEvent ?err"
    by (simp add: validEvent_def blankEvent_def aiOptions_def eventTypeEnum_def js_def)
  then have ct: "recordEvent ?err (?D (?d3 d2))
                      = (Inr (), (?D (?d3 d2))\<lparr>events := events (?d3 d2) @ [?err]\<rparr>)"
    by (simp add: recordEvent_def blankEvent_def js_def)
  have route: "analyzeCodeRoute w req (sv\<lparr>store := ?D (store sv)\<rparr>)
      = (Inl (Thrown (js ''store unavailable'')),
         \<lparr>store = (?D (?d3 d2))\<lparr>events := events (?d3 d2) @ [?err]\<rparr>, ai = a1\<rparr>)"
    unfolding analyzeCodeRoute_def by (simp add: tr' ct)
  have d4: "d4 = (?d3 d2)\<lparr>events := events (?d3 d2) @ [?ev s]\<rparr>"
    using recordEvent_Inr(2) [OF re] .
  show ?thesis
    using route sv' d4 by (simp add: blankEvent_def)
qed

text \<open>
  Claim C5, as the code has it. The routes await the record inside their \<open>try\<close> block.
  Take a hint request that gets its 200 response from a store that takes every event:
  content produced, append saved, and the \<open>hint_requested\<close> event recorded last. Against the
  same store refusing the \<open>hint_requested\<close> event, the request does not get that response
  but ends with the store's error handed to \<open>next\<close>. The server it leaves is the one of the
  run that succeeded, with the sessions (the hint appended), the accounts and the AI
  service's state as there, except that the last event is not the \<open>hint_requested\<close> event
  but the \<open>error_occurred\<close> event that the \<open>catch\<close> block records, with the store's message.
  The same holds for an analysis request and the \<open>code_analyzed\<close> event.
\<close>

theorem record_failure_fails_request:
  "(eventsDown (store sv) = [] \<and> generateHintRoute w req sv = (Inr r, sv')
      \<longrightarrow> generateHintRoute w req
             (sv\<lparr>store := (store sv)\<lparr>eventsDown := [js ''hint_requested'']\<rparr>\<rparr>)
           = (Inl (Thrown (js ''store unavailable'')),
              sv'\<lparr>store := (store sv')
                 \<lparr>eventsDown := [js ''hint_requested''],
                  events := butlast (events (store sv'))
                    @ [(blankEvent (js ''error_occurred''))
                         \<lparr>eventUserId := map_option uid (reqUser req),
                          eventPlatform := Some (reqPlatform req),
                          eventProblemTitle := Some (reqProblemTitle req),
                          eventResponseTime := Some (clockCatch w - clockStart w),
                          eventErrorMessage := Some (js ''store unavailable'')\<rparr>]\<rparr>\<rparr>)
         \<and> events (store sv') \<noteq> []
         \<and> eventType (last (events (store sv'))) = js ''hint_requested'')
   \<and> (eventsDown (store sv) = [] \<and> analyzeCodeRoute w req sv = (Inr r2, sv2)
      \<longrightarrow> analyzeCodeRoute w req
             (sv\<lparr>store := (store sv)\<lparr>eventsDown := [js ''code_analyzed'']\<rparr>\<rparr>)
           = (Inl (Thrown (js ''store unavailable'')),
              sv2\<lparr>store := (store sv2)
                 \<lparr>eventsDown := [js ''code_analyzed''],
                  events := butlast (events (store sv2))
                    @ [(blankEvent (js ''error_occurred''))
                         \<lparr>eventUserId := map_option uid (reqUser req),
                          eventPlatform := Some (reqPlatform req),
                          eventProblemTitle := Some (reqProblemTitle req),
                          eventCodeLength := Some (length (orDefault (reqUserCode req) [])),
                          eventResponseTime := Some (clockCatch w - clockStart w),
                          eventErrorMessage := Some (js ''store unavailable'')\<rparr>]\<rparr>\<rparr>)
         \<and> events (store sv2) \<noteq> []
         \<and> eventType (last (events (store sv2))) = js ''code_analyzed'')"
  using hint_route_record_down [of sv w req r sv']
    analysis_route_record_down [of sv w req r2 sv2]
  by blast

text \<open>
  The same for the sample requests: both succeed, and both fail once the event is refused.
\<close>

theorem record_failure_fails_request_witness:
  "map_sum id respHintNumber (fst (generateHintRoute sampleWorld sampleRequest sampleServer)) = Inr 1
   \<and> fst (generateHintRoute sampleWorld sampleRequest
            (sampleServer\<lparr>store := (store sampleServer)\<lparr>eventsDown := [js ''hint_requested'']\<rparr>\<rparr>))
       = Inl (Thrown (js ''store unavailable''))
   \<and> map_sum id respCodeLanguage
        (fst (analyzeCodeRoute sampleWorld sampleAnalysisRequest sampleServer)) = Inr (js ''unknown'')
   \<and> fst (analyzeCodeRoute sampleWorld sampleAnalysisRequest
            (sampleServer\<lparr>store := (store sampleServer)\<lparr>eventsDown := [js ''code_analyzed'']\<rparr>\<rparr>))
       = Inl (Thrown (js ''store unavailable''))"
proof -
  have up: "eventsDown (store sampleServer) = []"
    by (simp add: sampleServer_def sampleDb_def)
  have ok: "map_sum id respHintNumber (fst (generateHintRoute sampleWorld sampleRequest sampleServer))
              = Inr 1"
    by (simp add: session_sample_defs session_defs route_defs)
  then obtain r sv' where run: "generateHintRoute sampleWorld sampleRequest sampleServer = (Inr r, sv')"
    by (cases "generateHintRoute sampleWorld sampleRequest sampleServer")
       (auto simp: map_sum_def split: sum.splits)
  have ok2: "map_sum id respCodeLanguage
        (fst (analyzeCodeRoute sampleWorld sampleAnalysisRequest sampleServer)) = Inr (js ''unknown'')"
    by (simp add: session_sample_defs sampleAnalysisRequest_def session_defs route_defs
        detectCodeLanguage_def)
  then obtain r2 sv2 where
    run2: "analyzeCodeRoute sampleWorld sampleAnalysisRequest sampleServer = (Inr r2, sv2)"
    by (cases "analyzeCodeRoute sampleWorld sampleAnalysisRequest sampleServer")
       (auto simp: map_sum_def split: sum.splits)
  from record_failure_fails_request [THEN conjunct1, rule_format, OF conjI, OF up run]
  have down: "fst (generateHintRoute sampleWorld sampleRequest
            (sampleServer\<lparr>store := (store sampleServer)\<lparr>eventsDown := [js ''hint_requested'']\<rparr>\<rparr>))
       = Inl (Thrown (js ''store unavailable''))"
    by auto
  from record_failure_fails_request [THEN conjunct2, rule_format, OF conjI, OF up run2]
  have down2: "fst (analyzeCodeRoute sampleWorld sampleAnalysisRequest
            (sampleServer\<lparr>store := (store sampleServer)\<lparr>eventsDown := [js ''code_analyzed'']\<rparr>\<rparr>))
       = Inl (Thrown (js ''store unavailable''))"
    by auto
  from ok down ok2 down2 show ?thesis by simp
qed

text \<open>
  Claim C5 as stated fails: the sample hint request against a store that refuses the
  \<open>hint_requested\<close> event. The content is produced and the hint is appended to the stored
  session, and the request ends with the store's error instead of the 200 response; the
  events recorded are \<open>session_started\<close> and \<open>error_occurred\<close>.
\<close>

theorem record_failure_reaches_caller:
  "map (length \<circ> hints)
     (sessions (store (snd (generateHintRoute sampleWorld sampleRequest
        (sampleServer\<lparr>store := sampleDb\<lparr>eventsDown := [js ''hint_requested'']\<rparr>\<rparr>))))) = [1]
   \<and> map (map content \<circ> hints)
     (sessions (store (snd (generateHintRoute sampleWorld sampleRequest
        (sampleServer\<lparr>store := sampleDb\<lparr>eventsDown := [js ''hint_requested'']\<rparr>\<rparr>)))))
       = [[Some (js ''Which pairs have you already seen?'')]]
   \<and> fst (generateHintRoute sampleWorld sampleRequest
            (sampleServer\<lparr>store := sampleDb\<lparr>eventsDown := [js ''hint_requested'']\<rparr>\<rparr>))
       = Inl (Thrown (js ''store unavailable''))
   \<and> map eventType
     (events (store (snd (generateHintRoute sampleWorld sampleRequest
        (sampleServer\<lparr>store := sampleDb\<lparr>eventsDown := [js ''hint_requested'']\<rparr>\<rparr>)))))
       = [js ''session_started'', js ''error_occurred'']"
  by (simp add: session_sample_defs session_defs route_defs)

section \<open>Properties of appends by several requests\<close>













end
